theory Spec2Isabelle
  imports Main
begin

section \<open>JavaScript strings\<close>

text \<open>
  A string is a list of characters, and a character stands for a code unit below 256.
  \<open>\w\<close> is an ASCII letter, a digit or an underscore. \<open>\s\<close>, which is also what \<open>trim\<close>
  strips, is a blank, a tab, a line feed, a vertical tab, a form feed, a carriage return or
  the no-break space U+00A0; the white space that JavaScript knows above U+00FF has no
  character here. \<open>toLowerCase\<close> maps the 26 ASCII capitals and the capitals of Latin-1
  (U+00C0 to U+00DE without the multiplication sign U+00D7). \<open>toUpperChar\<close> is the
  canonical form that a regular expression with the flag \<open>i\<close> compares: a character from
  U+0080 on never takes the form of an ASCII character, so against an ASCII term only the
  26 ASCII letters matter; \<open>toUpperCase\<close> is applied by the source to a keyword of the
  lists or to the default word only, which are ASCII.
\<close>

definition isWordChar :: "char \<Rightarrow> bool" where
  "isWordChar c =
     (let n = (of_char c :: nat)
      in (48 \<le> n \<and> n \<le> 57) \<or> (65 \<le> n \<and> n \<le> 90) \<or> n = 95 \<or> (97 \<le> n \<and> n \<le> 122))"

definition isSpaceChar :: "char \<Rightarrow> bool" where
  "isSpaceChar c = (let n = (of_char c :: nat) in (9 \<le> n \<and> n \<le> 13) \<or> n = 32 \<or> n = 160)"

definition toLowerChar :: "char \<Rightarrow> char" where
  "toLowerChar c =
     (let n = (of_char c :: nat)
      in if (65 \<le> n \<and> n \<le> 90) \<or> (192 \<le> n \<and> n \<le> 222 \<and> n \<noteq> 215) then char_of (n + 32) else c)"

definition toUpperChar :: "char \<Rightarrow> char" where
  "toUpperChar c =
     (let n = (of_char c :: nat) in if 97 \<le> n \<and> n \<le> 122 then char_of (n - 32) else c)"

definition toLowerCase :: "string \<Rightarrow> string" where
  "toLowerCase s = map toLowerChar s"

definition toUpperCase :: "string \<Rightarrow> string" where
  "toUpperCase s = map toUpperChar s"

text \<open>\<open>s.startsWith(sub)\<close> and \<open>s.includes(sub)\<close>.\<close>

fun startsWith :: "string \<Rightarrow> string \<Rightarrow> bool" where
  "startsWith s [] = True"
| "startsWith [] (d # ds) = False"
| "startsWith (c # cs) (d # ds) = (c = d \<and> startsWith cs ds)"

fun includes_str :: "string \<Rightarrow> string \<Rightarrow> bool" where
  "includes_str [] sub = (sub = [])"
| "includes_str (c # cs) sub = (startsWith (c # cs) sub \<or> includes_str cs sub)"

text \<open>
  \<open>s.trim()\<close>, and \<open>s.replace(/\s+/g, ' ')\<close>: every maximal run of white space
  becomes one blank. The flag of \<open>collapseSpaces\<close> says that the previous character
  belonged to a run already replaced.
\<close>

definition trim :: "string \<Rightarrow> string" where
  "trim s = rev (dropWhile isSpaceChar (rev (dropWhile isSpaceChar s)))"

fun collapseSpaces :: "bool \<Rightarrow> string \<Rightarrow> string" where
  "collapseSpaces inRun [] = []"
| "collapseSpaces inRun (c # cs) =
     (if isSpaceChar c then (if inRun then collapseSpaces True cs else CHR '' '' # collapseSpaces True cs)
      else c # collapseSpaces False cs)"

text \<open>
  \<open>s.replace(new RegExp(`\\b${term}\\b`, 'gi'), '')\<close> for a term without
  metacharacters. The pattern is a literal between two word boundaries, so at each position
  there is at most one match and it has the length of the term; the search goes on after
  the match. \<open>wordBoundary prev next\<close> is \<open>\b\<close> between two neighbouring characters,
  \<open>None\<close> standing for the start or the end of the string. \<open>startsWithCI\<close> compares
  without regard to case, as the flag \<open>i\<close> does.
\<close>

definition wordBoundary :: "char option \<Rightarrow> char option \<Rightarrow> bool" where
  "wordBoundary prev nxt =
     ((case prev of None \<Rightarrow> False | Some c \<Rightarrow> isWordChar c)
      \<noteq> (case nxt of None \<Rightarrow> False | Some c \<Rightarrow> isWordChar c))"

fun startsWithCI :: "string \<Rightarrow> string \<Rightarrow> bool" where
  "startsWithCI s [] = True"
| "startsWithCI [] (d # ds) = False"
| "startsWithCI (c # cs) (d # ds) = (toUpperChar c = toUpperChar d \<and> startsWithCI cs ds)"

definition charAt :: "string \<Rightarrow> nat \<Rightarrow> char option" where
  "charAt s i = (if i < length s then Some (s ! i) else None)"

definition matchesWordAt :: "string \<Rightarrow> char option \<Rightarrow> string \<Rightarrow> bool" where
  "matchesWordAt term prev s =
     (term \<noteq> [] \<and> wordBoundary prev (charAt s 0) \<and> startsWithCI s term
      \<and> wordBoundary (charAt s (length term - 1)) (charAt s (length term)))"

text \<open>
  The scan over the string: \<open>skip\<close> counts the characters of the current match that are
  still to be dropped, \<open>prev\<close> is the character before the current position.
\<close>

fun removeWord :: "string \<Rightarrow> nat \<Rightarrow> char option \<Rightarrow> string \<Rightarrow> string" where
  "removeWord term skip prev [] = []"
| "removeWord term (Suc k) prev (c # cs) = removeWord term k (Some c) cs"
| "removeWord term 0 prev (c # cs) =
     (if matchesWordAt term prev (c # cs) then removeWord term (length term - 1) (Some c) cs
      else c # removeWord term 0 (Some c) cs)"

section \<open>Prompt synthesis (geminiService.ts)\<close>

definition orientationTerms :: "string list" where
  "orientationTerms =
     [''landscape'', ''portrait'', ''square'', ''1:1'', ''16:9'', ''9:16'', ''3:4'', ''4:3'',
      ''horizontal'', ''vertical'', ''wide'', ''tall'', ''panoramic'']"

text \<open>
  \<open>cleanPromptForResize\<close>: the empty prompt is falsy and gives the empty string; the
  \<open>forEach\<close> over the terms is a left fold.
\<close>

definition cleanPromptForResize :: "string \<Rightarrow> string" where
  "cleanPromptForResize prompt =
     (if prompt = [] then []
      else let cleaned = foldl (\<lambda>cleaned term. removeWord term 0 None cleaned) prompt orientationTerms
           in trim (collapseSpaces False cleaned))"

definition subjects :: "string list" where
  "subjects = [''lion'', ''person'', ''animal'', ''character'', ''figure'', ''man'', ''woman'',
               ''robot'', ''cat'', ''dog'', ''boy'', ''girl'']"

definition environments :: "string list" where
  "environments = [''desert'', ''forest'', ''beach'', ''city'', ''room'', ''landscape'',
                   ''mountain'', ''space'', ''office'', ''studio'']"

definition styles :: "string list" where
  "styles = [''cinematic'', ''realistic'', ''cartoon'', ''painting'', ''digital art'', ''anime'',
             ''photorealistic'', ''sketch'']"

text \<open>\<open>list.find(s => promptLower.includes(s)) || fallback\<close>.\<close>

definition detect :: "string list \<Rightarrow> string \<Rightarrow> string \<Rightarrow> string" where
  "detect keywords promptLower fallback =
     (case find (\<lambda>s. includes_str promptLower s) keywords of
        None \<Rightarrow> fallback
      | Some s \<Rightarrow> (if s = [] then fallback else s))"

definition sizeInstructions :: "string \<Rightarrow> string" where
  "sizeInstructions targetRatio =
     (if targetRatio = ''1:1'' then ''1080x1080 pixels''
      else if targetRatio = ''9:16'' then ''1080x1920 pixels''
      else if targetRatio = ''16:9'' then ''1920x1080 pixels''
      else if targetRatio = ''3:4'' then ''1080x1440 pixels''
      else if targetRatio = ''4:3'' then ''1440x1080 pixels''
      else ''the requested aspect ratio'')"

definition verticalPortrait916 :: "string \<Rightarrow> string" where
  "verticalPortrait916 mainSubject =
     ''\<newline>'' @
     ''            VERTICAL PORTRAIT (9:16):\<newline>'' @
     ''            - Full-body or 3/4 view of '' @ mainSubject @ ''\<newline>'' @
     ''            - Tall, portrait-oriented framing\<newline>'' @
     ''            - More vertical space above and below\<newline>'' @
     ''            - Ideal for mobile stories and reels\<newline>'' @
     ''            - DO NOT put the image inside a phone screen''"

definition ratioInstructions :: "string \<Rightarrow> string \<Rightarrow> string \<Rightarrow> string" where
  "ratioInstructions targetRatio mainSubject environment =
     (if targetRatio = ''1:1'' then
        ''\<newline>'' @
        ''            SQUARE COMPOSITION (1:1):\<newline>'' @
        ''            - Center the '' @ mainSubject @ '' perfectly\<newline>'' @
        ''            - Balanced framing from all sides\<newline>'' @
        ''            - Maintain equal spacing around subject\<newline>'' @
        ''            - Perfect for social media posts''
      else if targetRatio = ''9:16'' then verticalPortrait916 mainSubject
      else if targetRatio = ''16:9'' then
        ''\<newline>'' @
        ''            WIDE LANDSCAPE (16:9):\<newline>'' @
        ''            - Panoramic horizontal composition\<newline>'' @
        ''            - Show more of the '' @ environment @ '' background\<newline>'' @
        ''            - Wider field of view\<newline>'' @
        ''            - Perfect for banners and covers''
      else if targetRatio = ''3:4'' then
        ''\<newline>'' @
        ''             VERTICAL PORTRAIT (3:4):\<newline>'' @
        ''             - Classic portrait composition\<newline>'' @
        ''             - Balanced vertical framing\<newline>'' @
        ''             - Ideal for classic photography''
      else if targetRatio = ''4:3'' then
        ''\<newline>'' @
        ''             CLASSIC LANDSCAPE (4:3):\<newline>'' @
        ''             - Traditional photography composition\<newline>'' @
        ''             - Balanced horizontal framing''
      else ''Adapt composition for '' @ targetRatio @ '' aspect ratio'')"

definition consistencyCommands :: "string \<Rightarrow> string \<Rightarrow> string \<Rightarrow> string \<Rightarrow> string" where
  "consistencyCommands targetRatio mainSubject environment style =
     ''\<newline>'' @
     ''    CRITICAL CONSISTENCY COMMANDS:\<newline>'' @
     ''    - IDENTICAL '' @ toUpperCase mainSubject @ '' APPEARANCE: Same face, body, features, colors\<newline>'' @
     ''    - EXACT SAME CLOTHING/STYLE: No changes to attire or accessories\<newline>'' @
     ''    - IDENTICAL BACKGROUND: Same '' @ environment @ '', objects, lighting\<newline>'' @
     ''    - SAME ART STYLE: '' @ style @ '' style, quality, and details\<newline>'' @
     ''    - SAME LIGHTING: Identical light source, shadows, atmosphere\<newline>'' @
     ''    - PRESERVE ALL DETAILS: No alterations to character identity\<newline>'' @
     ''    \<newline>'' @
     ''    STRICT PROHIBITIONS:\<newline>'' @
     ''    - DO NOT change facial features\<newline>'' @
     ''    - DO NOT modify clothing or colors\<newline>'' @
     ''    - DO NOT alter background elements\<newline>'' @
     ''    - DO NOT change art style or quality\<newline>'' @
     ''    - DO NOT modify lighting conditions\<newline>'' @
     ''    - ABSOLUTELY NO FRAMES, NO BORDERS, NO BEZELS.\<newline>'' @
     ''    - DO NOT SHOW THE IMAGE ON A PHONE SCREEN OR DEVICE.\<newline>'' @
     ''    - The image must be FULL BLEED (extending to edges).\<newline>'' @
     ''    \<newline>'' @
     ''    ONLY ADJUST: Composition and framing for '' @ targetRatio @ '' aspect ratio''"

definition createAdvancedResizePrompt :: "string \<Rightarrow> string \<Rightarrow> string" where
  "createAdvancedResizePrompt originalPrompt targetRatio =
     (let promptLower = toLowerCase originalPrompt;
          mainSubject = detect subjects promptLower ''subject'';
          environment = detect environments promptLower ''environment'';
          style = detect styles promptLower ''realistic''
      in
     ''\<newline>'' @
     ''    RESIZE TRANSFORMATION COMMAND:\<newline>'' @
     ''    \<newline>'' @
     ''    ORIGINAL SCENE: '' @ originalPrompt @ ''\<newline>'' @
     ''    \<newline>'' @
     ''    TARGET FORMAT: '' @ targetRatio @ '' aspect ratio ('' @ sizeInstructions targetRatio @ '')\<newline>'' @
     ''    \<newline>'' @
     ''    '' @ ratioInstructions targetRatio mainSubject environment @ ''\<newline>'' @
     ''    \<newline>'' @
     ''    '' @ consistencyCommands targetRatio mainSubject environment style @ ''\<newline>'' @
     ''    \<newline>'' @
     ''    OUTPUT: Generate the EXACT same scene and character, only recomposed for '' @ targetRatio @ '' aspect ratio.\<newline>'' @
     ''    Maintain pixel-perfect consistency of all visual elements. Do not include any text, watermarks, signatures, letters, or words in the image.\<newline>'' @
     ''    \<newline>'' @
     ''    CRITICAL: The output must be a raw, frameless image. Do not render a phone, tablet, or photo frame containing the image. The image content must fill the entire canvas edge-toedge.'')"

section \<open>Thrown values and results\<close>

text \<open>
  The \<open>catch\<close> clauses take a value of type \<open>any\<close>. What is thrown is \<open>null\<close> or
  \<open>undefined\<close> (\<open>Nullish\<close>), or any other value, of which the program reads two things:
  its \<open>message\<close>, a string (\<open>None\<close> when the value has none), and \<open>JSON.stringify\<close>
  of it, which depends on its other properties: the call gives a string, or \<open>undefined\<close>
  (for a function or a symbol), or throws (for a cyclic object). \<open>new Error(msg)\<close> has no
  enumerable property of its own and is printed as \<open>{}\<close>.
\<close>

datatype stringify_outcome = StringifyThrows | StringifyUndefined | Stringified string

record thrown_value =
  message :: "string option"
  stringified :: stringify_outcome

datatype js_error = Nullish | Thrown thrown_value

definition new_Error :: "string \<Rightarrow> js_error" where
  "new_Error msg = Thrown \<lparr>message = Some msg, stringified = Stringified ''{}''\<rparr>"

text \<open>
  \<open>x || fallback\<close> on a string that may be \<open>undefined\<close> (the empty string is falsy), and
  the text a template literal prints for such a value.
\<close>

definition orElse :: "string option \<Rightarrow> string \<Rightarrow> string" where
  "orElse x fallback = (case x of None \<Rightarrow> fallback | Some s \<Rightarrow> if s = [] then fallback else s)"

definition interpolate :: "string option \<Rightarrow> string" where
  "interpolate x = (case x of None \<Rightarrow> ''undefined'' | Some s \<Rightarrow> s)"

text \<open>
  \<open>isQuotaError\<close>: the message is read with \<open>error?.message || ''\<close>, so \<open>null\<close> and
  \<open>undefined\<close> give the empty message; for both no test succeeds (\<open>JSON.stringify\<close>
  gives \<open>"null"\<close> for the one and \<open>undefined\<close> for the other, on which \<open>includes\<close>
  throws). For any other value \<open>JSON.stringify\<close> is called before any test is made, and
  the \<open>catch\<close> inside the function answers \<open>false\<close> when it throws; when it gives
  \<open>undefined\<close> the three tests of the message are made first, and \<open>str.includes\<close> throws
  only after all of them have failed.
\<close>

definition isQuotaError :: "js_error \<Rightarrow> bool" where
  "isQuotaError error =
     (case error of
        Nullish \<Rightarrow> False
      | Thrown v \<Rightarrow>
          (let msg = orElse (message v) [];
               msgTests = (includes_str msg ''429'' \<or> includes_str msg ''RESOURCE_EXHAUSTED''
                           \<or> includes_str msg ''quota'')
           in case stringified v of
                StringifyThrows \<Rightarrow> False
              | StringifyUndefined \<Rightarrow> msgTests
              | Stringified str \<Rightarrow>
                  msgTests \<or> includes_str str ''429'' \<or> includes_str str ''RESOURCE_EXHAUSTED''))"

text \<open>
  The objects the functions return. All of them are read by the caller through the return
  type of \<open>sendMessage\<close>, whose fields other than \<open>text\<close> are optional; a field that an
  object literal leaves out, or sets to \<open>undefined\<close>, is \<open>None\<close>. The fields \<open>text\<close>,
  \<open>image\<close> and \<open>prompt\<close> carry the suffix \<open>_field\<close>. A grounding source is the pair of
  its \<open>uri\<close> and \<open>title\<close>.
\<close>

record result =
  text_field :: "string option"
  sources :: "(string \<times> string) list option"
  image_field :: "string option"
  prompt_field :: "string option"
  needsAspectRatio :: "bool option"
  pendingPrompt :: "string option"
  resetMemory :: "bool option"

definition empty_result :: result where
  "empty_result =
     \<lparr>text_field = None, sources = None, image_field = None, prompt_field = None,
      needsAspectRatio = None, pendingPrompt = None, resetMemory = None\<rparr>"

section \<open>The model gateway\<close>

text \<open>
  The images of a turn, the parts of a message and the messages of the history, as the
  SDK types \<open>Part\<close> and \<open>Content\<close> are used here: a part is a text or inline data.
\<close>

record image_blob =
  data :: string
  mimeType :: string

datatype part = TextPart string | InlineData image_blob

record content =
  role :: "string option"
  parts :: "part list"

text \<open>
  The four configurations the service passes to \<open>generateContent\<close>: the image modality,
  the search tool, the thinking budget, and the system instruction with the declared
  tools (the instruction is a constant text and is not part of the model).
\<close>

datatype config =
    ResponseModalities_IMAGE
  | GoogleSearch
  | ThinkingBudget nat
  | ToolSelection "string list"

text \<open>A call of the SDK: the model name and what is sent to it.\<close>

datatype call =
    GenerateImages string string string
  | GenerateContent string "content list" config

text \<open>
  What the service reads of a response: of \<open>generateImages\<close> the bytes of the first
  image; of \<open>generateContent\<close> the text, the parts of the first candidate, the function
  calls, and the \<open>web\<close> entry of each grounding chunk. A function call has a name and
  may have an arguments object (\<open>args\<close> is optional in the SDK type); an argument that the
  object leaves out reads as \<open>undefined\<close>, which is \<open>None\<close>. A call without a name takes
  the branch of a name that is none of the declared tools.
\<close>

record images_response =
  imageBytes :: "string option"

record function_call =
  name :: string
  args :: "(string \<rightharpoonup> string) option"

record content_response =
  response_text :: "string option"
  candidateParts :: "part list option"
  functionCalls :: "function_call list option"
  groundingChunks :: "(string \<times> string) option list option"

text \<open>
  The backend is outside the program: \<open>ai\<close> gives, for the calls made so far and the
  next request, either the value thrown or the response. The wording of the \<open>TypeError\<close>
  that the engine throws when a property is read from \<open>undefined\<close> or \<open>null\<close> is outside
  the program too: \<open>typeErrorMessage ai p\<close> is its message for the property \<open>p\<close>. An
  \<open>async\<close> function is a function from the calls made so far to its outcome (\<open>Inl\<close> what
  it throws, \<open>Inr\<close> what it returns) and the calls made after it.
\<close>

record gateway =
  images_backend :: "call list \<Rightarrow> string \<Rightarrow> string \<Rightarrow> string \<Rightarrow> js_error + images_response"
  content_backend :: "call list \<Rightarrow> string \<Rightarrow> content list \<Rightarrow> config \<Rightarrow> js_error + content_response"
  typeErrorMessage :: "string \<Rightarrow> string"

definition typeError :: "gateway \<Rightarrow> string \<Rightarrow> js_error" where
  "typeError ai p = new_Error (typeErrorMessage ai p)"

type_synonym 'a async = "call list \<Rightarrow> (js_error + 'a) \<times> call list"

definition generateImages :: "gateway \<Rightarrow> string \<Rightarrow> string \<Rightarrow> string \<Rightarrow> images_response async" where
  "generateImages ai model prompt aspectRatio calls =
     (images_backend ai calls model prompt aspectRatio,
      calls @ [GenerateImages model prompt aspectRatio])"

definition generateContent :: "gateway \<Rightarrow> string \<Rightarrow> content list \<Rightarrow> config \<Rightarrow> content_response async" where
  "generateContent ai model contents cfg calls =
     (content_backend ai calls model contents cfg,
      calls @ [GenerateContent model contents cfg])"

section \<open>Helper functions (geminiService.ts)\<close>

text \<open>
  \<open>findLastImage\<close>: both loops run from the last index down, so they visit the reversed
  lists. \<open>currentImages\<close> is an optional parameter.
\<close>

fun findInParts :: "part list \<Rightarrow> image_blob option" where
  "findInParts [] = None"
| "findInParts (InlineData d # ps) = Some \<lparr>data = data d, mimeType = mimeType d\<rparr>"
| "findInParts (TextPart t # ps) = findInParts ps"

fun findInHistory :: "content list \<Rightarrow> image_blob option" where
  "findInHistory [] = None"
| "findInHistory (c # cs) =
     (case findInParts (rev (parts c)) of Some img \<Rightarrow> Some img | None \<Rightarrow> findInHistory cs)"

definition findLastImage :: "content list \<Rightarrow> image_blob list option \<Rightarrow> image_blob option" where
  "findLastImage history currentImages =
     (case currentImages of
        Some imgs \<Rightarrow> if imgs \<noteq> [] then Some (last imgs) else findInHistory (rev history)
      | None \<Rightarrow> findInHistory (rev history))"

text \<open>
  The loop every image operation runs over \<open>response.candidates?.[0]?.content?.parts || []\<close>:
  the data URI of the first part with inline data. The URI is never empty, so the test
  \<open>if (b64Image)\<close> that follows the loop asks whether a part was found.
\<close>

fun firstInlineData :: "part list \<Rightarrow> string option" where
  "firstInlineData [] = None"
| "firstInlineData (InlineData d # ps) = Some (''data:'' @ mimeType d @ '';base64,'' @ data d)"
| "firstInlineData (TextPart t # ps) = firstInlineData ps"

definition partsOrEmpty :: "content_response \<Rightarrow> part list" where
  "partsOrEmpty response = (case candidateParts response of None \<Rightarrow> [] | Some ps \<Rightarrow> ps)"

section \<open>Tool implementations (geminiService.ts)\<close>

text \<open>
  \<open>executeGenerateImage\<close>. The first \<open>try\<close> swallows what the call to Imagen throws and
  falls through when no bytes came back (the empty string is falsy);
  \<open>executeGenerateImage_fallback\<close> is the code from "Attempt 2" to the end of the function.
\<close>

definition executeGenerateImage_fallback :: "gateway \<Rightarrow> string \<Rightarrow> result async" where
  "executeGenerateImage_fallback ai fullPrompt calls =
     (case generateContent ai ''gemini-2.5-flash-image''
             [\<lparr>role = None, parts = [TextPart fullPrompt]\<rparr>] ResponseModalities_IMAGE calls of
        (Inl fallbackError, calls') \<Rightarrow>
          (Inl (if isQuotaError fallbackError
                then new_Error ''Image generation quota exceeded. Please try again later.''
                else new_Error ''Failed to generate image. Please try again.''), calls')
      | (Inr response, calls') \<Rightarrow>
          (case firstInlineData (partsOrEmpty response) of
             Some b64Image \<Rightarrow> (Inr (empty_result\<lparr>image_field := Some b64Image\<rparr>), calls')
           | None \<Rightarrow> (Inl (new_Error ''No image was generated.''), calls')))"

definition executeGenerateImage :: "gateway \<Rightarrow> string \<Rightarrow> string \<Rightarrow> result async" where
  "executeGenerateImage ai prompt aspectRatio calls =
     (let cleanedPrompt = cleanPromptForResize prompt;
          fullPrompt = createAdvancedResizePrompt cleanedPrompt aspectRatio
      in case generateImages ai ''imagen-4.0-generate-001'' fullPrompt aspectRatio calls of
           (Inr response, calls') \<Rightarrow>
             (case imageBytes response of
                Some base64ImageBytes \<Rightarrow>
                  (if base64ImageBytes \<noteq> []
                   then (Inr (empty_result\<lparr>image_field :=
                                 Some (''data:image/png;base64,'' @ base64ImageBytes)\<rparr>), calls')
                   else executeGenerateImage_fallback ai fullPrompt calls')
              | None \<Rightarrow> executeGenerateImage_fallback ai fullPrompt calls')
         | (Inl error, calls') \<Rightarrow> executeGenerateImage_fallback ai fullPrompt calls')"

definition editPrompt :: "string option \<Rightarrow> string" where
  \<open>editPrompt prompt =
     ''You are an expert photo editor. Your most important and primary goal is to perfectly preserve the facial features, likeness, and identity of the person in the original image. This is a strict requirement. Now, edit the image based on the user's instructions below. When changing the background, clothes, or pose, you MUST apply these changes to the original person without altering their face. User edit instructions: "'' @ interpolate prompt @ ''". IMPORTANT: Do not add any frames, borders, or text to the image.''\<close>

definition executeEditImage :: "gateway \<Rightarrow> string option \<Rightarrow> image_blob \<Rightarrow> result async" where
  "executeEditImage ai prompt img calls =
     (let fullPrompt = editPrompt prompt;
          imagePart = InlineData \<lparr>data = data img, mimeType = mimeType img\<rparr>;
          textPart = TextPart fullPrompt
      in case generateContent ai ''gemini-2.5-flash-image''
                [\<lparr>role = None, parts = [imagePart, textPart]\<rparr>] ResponseModalities_IMAGE calls of
           (Inr response, calls') \<Rightarrow>
             (let textResponse = response_text response
              in case firstInlineData (partsOrEmpty response) of
                   Some b64Image \<Rightarrow>
                     (Inr (empty_result\<lparr>image_field := Some b64Image,
                             text_field := Some (orElse textResponse ''Here is your edited image.''),
                             prompt_field := prompt\<rparr>), calls')
                 | None \<Rightarrow>
                     (Inr (empty_result\<lparr>image_field := Some [],
                             text_field := Some (orElse textResponse
                               ''I was unable to edit the image as requested. Please try a different prompt.''),
                             prompt_field := prompt\<rparr>), calls'))
         | (Inl error, calls') \<Rightarrow>
             (Inl (if isQuotaError error
                   then new_Error ''Usage limit exceeded for image editing. Please try again later.''
                   else new_Error ''Failed to edit image.''), calls'))"

definition referencePrompt :: "string option \<Rightarrow> string" where
  "referencePrompt prompt =
     ''\<newline>'' @
     ''    Use the attached face reference.\<newline>'' @
     ''    Keep the face identical. Do not alter facial features.\<newline>'' @
     ''    '' @ interpolate prompt @ ''\<newline>'' @
     ''    \<newline>'' @
     ''    STRICT RULES AND GUIDELINES:\<newline>'' @
     ''    - Use the reference face images exactly. Do NOT alter the identity.\<newline>'' @
     ''    - Keep the face exactly the same. Do not change eyes, lips, nose, skin tone, or hair.\<newline>'' @
     ''    - Only modify body, pose, and environment.\<newline>'' @
     ''    - Apply the requested body/outfit ONLY.\<newline>'' @
     ''    - Ensure high photorealism and natural blending.\<newline>'' @
     ''    - OUTPUT FORMAT: Full-bleed image. NO Borders, NO Frames, NO Device Mockups.\<newline>'' @
     ''    ''"

text \<open>
  \<open>generateFromReference\<close>: the test for an empty list stands before the \<open>try\<close>, so its
  error leaves the function as it is.
\<close>

definition generateFromReference :: "gateway \<Rightarrow> string option \<Rightarrow> image_blob list \<Rightarrow> result async" where
  "generateFromReference ai prompt images calls =
     (if images = [] then (Inl (new_Error ''No reference images provided.''), calls)
      else
        let fullPrompt = referencePrompt prompt;
            imageParts = map (\<lambda>img. InlineData \<lparr>data = data img, mimeType = mimeType img\<rparr>) images;
            textPart = TextPart fullPrompt;
            allParts = imageParts @ [textPart]
        in case generateContent ai ''gemini-2.5-flash-image''
                  [\<lparr>role = None, parts = allParts\<rparr>] ResponseModalities_IMAGE calls of
             (Inr response, calls') \<Rightarrow>
               (let textResponse = response_text response
                in case firstInlineData (partsOrEmpty response) of
                     Some b64Image \<Rightarrow>
                       (Inr (empty_result\<lparr>image_field := Some b64Image,
                               text_field := Some (orElse textResponse
                                 ''Here is your generated image with face consistency preserved.''),
                               prompt_field := prompt\<rparr>), calls')
                   | None \<Rightarrow>
                       (Inr (empty_result\<lparr>image_field := Some [],
                               text_field := Some (orElse textResponse
                                 ''I was unable to generate the image from the reference.''),
                               prompt_field := prompt\<rparr>), calls'))
           | (Inl error, calls') \<Rightarrow>
               (Inl (if isQuotaError error
                     then new_Error ''Usage limit exceeded. Please try again later.''
                     else new_Error ''Failed to generate image from reference.''), calls'))"

definition executeSearch :: "gateway \<Rightarrow> string \<Rightarrow> result async" where
  "executeSearch ai query calls =
     (case generateContent ai ''gemini-2.5-flash''
             [\<lparr>role = Some ''user'', parts = [TextPart query]\<rparr>] GoogleSearch calls of
        (Inr res, calls') \<Rightarrow>
          (Inr (empty_result\<lparr>text_field := Some (orElse (response_text res) []),
                  sources := map_option (List.map_filter (\<lambda>web. web)) (groundingChunks res)\<rparr>),
           calls')
      | (Inl error, calls') \<Rightarrow>
          (Inl (new_Error ''Failed to get information from Google Search.''), calls'))"

definition executeComplexQuery :: "gateway \<Rightarrow> string \<Rightarrow> result async" where
  "executeComplexQuery ai query calls =
     (case generateContent ai ''gemini-2.5-pro''
             [\<lparr>role = Some ''user'', parts = [TextPart query]\<rparr>] (ThinkingBudget 32768) calls of
        (Inr res, calls') \<Rightarrow>
          (Inr (empty_result\<lparr>text_field := Some (orElse (response_text res) [])\<rparr>), calls')
      | (Inl error, calls') \<Rightarrow>
          (Inl (new_Error ''Failed to process the complex query.''), calls'))"

section \<open>Exported functions (geminiService.ts)\<close>

text \<open>
  \<open>resizeImage\<close>. The dispatcher passes \<open>toolArgs.aspectRatio\<close>, which may be missing, and
  no original prompt. The \<open>switch\<close> sets the same pixel sizes as the one in
  \<open>createAdvancedResizePrompt\<close> (\<open>sizeInstructions\<close>). The source computes
  \<open>sceneDescription\<close> and never uses it. The \<open>throw\<close> after the loop stands inside the
  \<open>try\<close>, so the \<open>catch\<close> (\<open>resizeImage_catch\<close>) also handles the error made from the
  text response.
\<close>

definition ratioDescription :: "string \<Rightarrow> string" where
  "ratioDescription aspectRatio =
     (if aspectRatio = ''1:1'' then ''SQUARE (1:1)''
      else if aspectRatio = ''9:16'' then ''TALL PORTRAIT (9:16)''
      else if aspectRatio = ''16:9'' then ''WIDE LANDSCAPE (16:9)''
      else if aspectRatio = ''3:4'' then ''PORTRAIT (3:4)''
      else if aspectRatio = ''4:3'' then ''LANDSCAPE (4:3)''
      else aspectRatio)"

definition sceneDescription :: "string option \<Rightarrow> string" where
  \<open>sceneDescription originalPrompt =
     (case originalPrompt of
        None \<Rightarrow> ''SCENE: The provided image.''
      | Some p \<Rightarrow> if p = [] then ''SCENE: The provided image.''
                  else ''SCENE DESCRIPTION: "'' @ p @ ''"'')\<close>

definition resizePrompt :: "string \<Rightarrow> string" where
  "resizePrompt aspectRatio =
     ''\<newline>'' @
     ''    CRITICAL TASK: CREATE A NEW IMAGE based on the attached reference.\<newline>'' @
     ''    \<newline>'' @
     ''    TARGET ASPECT RATIO: '' @ aspectRatio @ '' ('' @ ratioDescription aspectRatio @ '')\<newline>'' @
     ''    \<newline>'' @
     ''    INSTRUCTIONS:\<newline>'' @
     ''    1. IGNORE the aspect ratio of the attached reference image.\<newline>'' @
     ''    2. GENERATE a new image canvas with dimensions approx '' @ sizeInstructions aspectRatio @ ''.\<newline>'' @
     ''    3. RECOMPOSE the scene to fit this new shape perfectly.\<newline>'' @
     ''       - If '' @ aspectRatio @ '' is wider than original: OUTPAINT / EXTEND background horizontally.\<newline>'' @
     ''       - If '' @ aspectRatio @ '' is taller than original: EXTEND background vertically.\<newline>'' @
     ''    4. CONSISTENCY IS KEY:\<newline>'' @
     ''       - Subject (Face, Body, Dress) MUST match the reference EXACTLY.\<newline>'' @
     ''       - Environment/Lighting MUST match the reference.\<newline>'' @
     ''    \<newline>'' @
     ''    OUTPUT:\<newline>'' @
     ''    - A single, high-quality image.\<newline>'' @
     ''    - FULL BLEED (No borders, no frames, no black bars).\<newline>'' @
     ''    - The image MUST fill the '' @ aspectRatio @ '' frame completely.\<newline>'' @
     ''    ''"

definition resizeImage_catch :: "js_error \<Rightarrow> js_error" where
  "resizeImage_catch error =
     (if isQuotaError error then new_Error ''Usage limit exceeded. Please try again later.''
      else error)"

definition resizeImage :: "gateway \<Rightarrow> image_blob \<Rightarrow> string option \<Rightarrow> string option \<Rightarrow> result async" where
  "resizeImage ai img aspectRatio originalPrompt calls =
     (let scene = sceneDescription originalPrompt;
          prompt = resizePrompt (interpolate aspectRatio);
          imagePart = InlineData \<lparr>data = data img, mimeType = mimeType img\<rparr>;
          textPart = TextPart prompt
      in case generateContent ai ''gemini-2.5-flash-image''
                [\<lparr>role = None, parts = [imagePart, textPart]\<rparr>] ResponseModalities_IMAGE calls of
           (Inr response, calls') \<Rightarrow>
             (let textResponse = response_text response
              in case firstInlineData (partsOrEmpty response) of
                   Some b64Image \<Rightarrow>
                     (Inr (empty_result\<lparr>image_field := Some b64Image,
                             text_field := Some (''Here is your image, resized to ''
                                                 @ interpolate aspectRatio @ ''.'')\<rparr>), calls')
                 | None \<Rightarrow>
                     (Inl (resizeImage_catch
                             (new_Error (orElse textResponse ''The model failed to resize the image.''))),
                      calls'))
         | (Inl error, calls') \<Rightarrow> (Inl (resizeImage_catch error), calls'))"

definition executePendingImageGeneration :: "gateway \<Rightarrow> string \<Rightarrow> string \<Rightarrow> result async" where
  "executePendingImageGeneration ai prompt aspectRatio calls =
     (case executeGenerateImage ai prompt aspectRatio calls of
        (Inr res, calls') \<Rightarrow>
          (Inr (empty_result\<lparr>image_field := image_field res,
                  text_field := Some ''Here is the image I generated for you with your selected aspect ratio.'',
                  prompt_field := Some prompt\<rparr>), calls')
      | (Inl error, calls') \<Rightarrow> (Inl error, calls'))"

section \<open>Core chat logic (geminiService.ts)\<close>

text \<open>The names of the declared tools, in the order of the declaration.\<close>

definition tools :: "string list" where
  "tools = [''generateImage'', ''editImage'', ''resizeImage'', ''generateFromReference'',
            ''searchTheWeb'', ''complexQuery'', ''resetFaceMemory'']"

definition imageDependentTools :: "string list" where
  "imageDependentTools = [''editImage'', ''resizeImage'', ''generateFromReference'']"

definition noImageText :: string where
  "noImageText = ''I'm sorry, I couldn't find an image to work with. Please upload one first.''"

definition resetText :: string where
  "resetText = ''Face memory has been reset. Please upload new face photos for the next generation.''"

definition highTrafficText :: string where
  "highTrafficText = ''I apologize, but I'm currently experiencing high traffic (Quota Exceeded). Please try again in a few moments.''"

definition askRatioText :: "string option \<Rightarrow> string" where
  \<open>askRatioText prompt =
     ''I can generate an image of "'' @ interpolate prompt @ ''". Please select an aspect ratio.''\<close>

text \<open>
  The object \<open>{ image: result.image, text: result.text, prompt: result.prompt }\<close> that three
  branches of \<open>sendMessage\<close> build from the result of an image operation.
\<close>

definition imageTextPrompt :: "string option \<Rightarrow> string option \<Rightarrow> string option \<Rightarrow> result" where
  "imageTextPrompt i t p = empty_result\<lparr>image_field := i, text_field := t, prompt_field := p\<rparr>"

text \<open>
  \<open>toolArgs.p\<close>: reading a property of the arguments throws a \<open>TypeError\<close> when the
  call has no arguments object.
\<close>

definition readArg :: "gateway \<Rightarrow> (string \<rightharpoonup> string) option \<Rightarrow> string \<Rightarrow> js_error + string option" where
  "readArg ai toolArgs p =
     (case toolArgs of None \<Rightarrow> Inl (typeError ai p) | Some a \<Rightarrow> Inr (a p))"

text \<open>
  \<open>dispatchTool\<close> is the code of the \<open>try\<close> block of \<open>sendMessage\<close> from the test for
  \<open>resetFaceMemory\<close> to the end of the block: the branch taken for the first function
  call, after the call that selected it. An argument is read where the source reads it:
  in the \<open>generateImage\<close> branch before the images are looked at, in the other image
  branches only after an image was found, as the argument of the call.
\<close>

definition dispatchTool ::
  "gateway \<Rightarrow> string \<Rightarrow> image_blob list \<Rightarrow> content list \<Rightarrow> function_call \<Rightarrow> result async" where
  "dispatchTool ai userText images history tool calls1 =
     (let toolName = name tool; toolArgs = args tool
      in if toolName = ''resetFaceMemory'' then
           (Inr (empty_result\<lparr>text_field := Some resetText, resetMemory := Some True\<rparr>), calls1)
         else if toolName = ''searchTheWeb'' then
           (case readArg ai toolArgs ''query'' of
              Inl error \<Rightarrow> (Inl error, calls1)
            | Inr query \<Rightarrow> executeSearch ai (orElse query userText) calls1)
         else if toolName = ''complexQuery'' then
           (case readArg ai toolArgs ''query'' of
              Inl error \<Rightarrow> (Inl error, calls1)
            | Inr query \<Rightarrow> executeComplexQuery ai (orElse query userText) calls1)
         else if toolName = ''generateImage'' then
           (case readArg ai toolArgs ''prompt'' of
              Inl error \<Rightarrow> (Inl error, calls1)
            | Inr prompt \<Rightarrow>
                if images \<noteq> [] then
                  (case generateFromReference ai prompt images calls1 of
                     (Inr r, calls2) \<Rightarrow>
                       (Inr (imageTextPrompt (image_field r) (text_field r) (prompt_field r)), calls2)
                   | (Inl error, calls2) \<Rightarrow> (Inl error, calls2))
                else
                  (Inr (empty_result\<lparr>text_field := Some (askRatioText prompt),
                          needsAspectRatio := Some True,
                          pendingPrompt := prompt\<rparr>), calls1))
         else if toolName \<in> set imageDependentTools then
           (let lastImage = findLastImage history (Some images)
            in if toolName = ''editImage'' then
                 (case lastImage of
                    None \<Rightarrow> (Inr (empty_result\<lparr>text_field := Some noImageText\<rparr>), calls1)
                  | Some img \<Rightarrow>
                      (case readArg ai toolArgs ''prompt'' of
                         Inl error \<Rightarrow> (Inl error, calls1)
                       | Inr prompt \<Rightarrow>
                           (case executeEditImage ai prompt img calls1 of
                              (Inr r, calls2) \<Rightarrow>
                                (Inr (imageTextPrompt (image_field r) (text_field r) (prompt_field r)),
                                 calls2)
                            | (Inl error, calls2) \<Rightarrow> (Inl error, calls2))))
               else if toolName = ''resizeImage'' then
                 (case lastImage of
                    None \<Rightarrow> (Inr (empty_result\<lparr>text_field := Some noImageText\<rparr>), calls1)
                  | Some img \<Rightarrow>
                      (case readArg ai toolArgs ''aspectRatio'' of
                         Inl error \<Rightarrow> (Inl error, calls1)
                       | Inr aspectRatio \<Rightarrow>
                           (case resizeImage ai img aspectRatio None calls1 of
                              (Inr r, calls2) \<Rightarrow>
                                (Inr (imageTextPrompt (image_field r) (text_field r) (Some ''resized'')),
                                 calls2)
                            | (Inl error, calls2) \<Rightarrow> (Inl error, calls2))))
               else if toolName = ''generateFromReference'' then
                 (let allImages =
                        (if images = []
                         then (case findLastImage history None of
                                 Some lastHistoryImage \<Rightarrow> [lastHistoryImage]
                               | None \<Rightarrow> [])
                         else images)
                  in if allImages = [] then
                       (Inr (empty_result\<lparr>text_field :=
                               Some ''Please upload your face image for consistency.''\<rparr>), calls1)
                     else
                       (case readArg ai toolArgs ''prompt'' of
                          Inl error \<Rightarrow> (Inl error, calls1)
                        | Inr prompt \<Rightarrow>
                            (case generateFromReference ai prompt allImages calls1 of
                               (Inr r, calls2) \<Rightarrow>
                                 (Inr (imageTextPrompt (image_field r) (text_field r) (prompt_field r)),
                                  calls2)
                             | (Inl error, calls2) \<Rightarrow> (Inl error, calls2))))
               else
                 (Inr (empty_result\<lparr>text_field :=
                         Some ''I'm not sure how to handle that tool call.''\<rparr>), calls1))
         else
           (Inr (empty_result\<lparr>text_field :=
                   Some ''I'm not sure how to handle that tool call.''\<rparr>), calls1))"

text \<open>
  \<open>sendMessage_try\<close> is the body of \<open>sendMessage\<close> up to the end of its \<open>try\<close> block: the
  request to the model that selects a tool, the plain answer when it selects none, and
  otherwise the branch of the first function call. \<open>Inl\<close> is what the block throws.
\<close>

definition sendMessage_try :: "gateway \<Rightarrow> string \<Rightarrow> image_blob list \<Rightarrow> content list \<Rightarrow> result async" where
  "sendMessage_try ai userText images history calls =
     (let contents = history @
            [\<lparr>role = Some ''user'',
              parts = TextPart userText
                      # map (\<lambda>img. InlineData \<lparr>data = data img, mimeType = mimeType img\<rparr>) images\<rparr>]
      in case generateContent ai ''gemini-flash-lite-latest'' contents (ToolSelection tools) calls of
           (Inl error, calls1) \<Rightarrow> (Inl error, calls1)
         | (Inr res, calls1) \<Rightarrow>
             (case functionCalls res of
                None \<Rightarrow> (Inr (empty_result\<lparr>text_field := Some (orElse (response_text res) [])\<rparr>), calls1)
              | Some [] \<Rightarrow> (Inr (empty_result\<lparr>text_field := Some (orElse (response_text res) [])\<rparr>), calls1)
              | Some (tool # others) \<Rightarrow> dispatchTool ai userText images history tool calls1))"

text \<open>
  \<open>sendMessage_catch\<close> is the \<open>catch\<close> block of \<open>sendMessage\<close>. After the test for a
  quota error it reads \<open>error.message\<close> without the guard that \<open>isQuotaError\<close> has: on
  \<open>null\<close> or \<open>undefined\<close> this read throws a \<open>TypeError\<close>, which leaves the function.
\<close>

definition sendMessage_catch :: "gateway \<Rightarrow> js_error \<Rightarrow> js_error + result" where
  "sendMessage_catch ai error =
     (if isQuotaError error then Inr (empty_result\<lparr>text_field := Some highTrafficText\<rparr>)
      else case error of
             Nullish \<Rightarrow> Inl (typeError ai ''message'')
           | Thrown v \<Rightarrow>
               Inr (empty_result\<lparr>text_field :=
                      Some (''An error occurred: '' @ interpolate (message v))\<rparr>))"

text \<open>
  \<open>sendMessage\<close>: what the \<open>try\<close> block returns, or what the \<open>catch\<close> block makes of the
  value it throws.
\<close>

definition sendMessage :: "gateway \<Rightarrow> string \<Rightarrow> image_blob list \<Rightarrow> content list \<Rightarrow> result async" where
  "sendMessage ai userText images history calls =
     (case sendMessage_try ai userText images history calls of
        (Inr r, calls') \<Rightarrow> (Inr r, calls')
      | (Inl error, calls') \<Rightarrow> (sendMessage_catch ai error, calls'))"

section \<open>Consistency memory (class CompleteConsistencyAI)\<close>

text \<open>
  The class keeps four private fields, each a base64 string or \<open>null\<close>. A field that
  holds \<open>null\<close> is \<open>None\<close>. Every method mutates \<open>this\<close>; the model takes the
  object and returns the updated one.
\<close>

record CompleteConsistencyAI =
  faceMemory :: "string option"
  dressMemory :: "string option"
  backgroundMemory :: "string option"
  environmentMemory :: "string option"

definition new_CompleteConsistencyAI :: CompleteConsistencyAI where
  "new_CompleteConsistencyAI =
     \<lparr>faceMemory = None, dressMemory = None, backgroundMemory = None, environmentMemory = None\<rparr>"

definition setFaceReference :: "string \<Rightarrow> CompleteConsistencyAI \<Rightarrow> CompleteConsistencyAI" where
  "setFaceReference base64 this = this\<lparr>faceMemory := Some base64\<rparr>"

definition setDressReference :: "string \<Rightarrow> CompleteConsistencyAI \<Rightarrow> CompleteConsistencyAI" where
  "setDressReference base64 this = this\<lparr>dressMemory := Some base64\<rparr>"

definition setBackgroundReference :: "string \<Rightarrow> CompleteConsistencyAI \<Rightarrow> CompleteConsistencyAI" where
  "setBackgroundReference base64 this = this\<lparr>backgroundMemory := Some base64\<rparr>"

definition setEnvironmentReference :: "string \<Rightarrow> CompleteConsistencyAI \<Rightarrow> CompleteConsistencyAI" where
  "setEnvironmentReference base64 this = this\<lparr>environmentMemory := Some base64\<rparr>"

text \<open>The object literal returned by \<open>getMemories\<close>.\<close>

record memories =
  face :: "string option"
  dress :: "string option"
  background :: "string option"
  environment :: "string option"

definition getMemories :: "CompleteConsistencyAI \<Rightarrow> memories" where
  "getMemories this =
     \<lparr>face = faceMemory this, dress = dressMemory this,
      background = backgroundMemory this, environment = environmentMemory this\<rparr>"

text \<open>The union type \<open>'face' | 'dress' | 'background' | 'environment'\<close>.\<close>

datatype element = Face | Dress | Background | Environment

fun clearMemory :: "element \<Rightarrow> CompleteConsistencyAI \<Rightarrow> CompleteConsistencyAI" where
  "clearMemory Face this = this\<lparr>faceMemory := None\<rparr>"
| "clearMemory Dress this = this\<lparr>dressMemory := None\<rparr>"
| "clearMemory Background this = this\<lparr>backgroundMemory := None\<rparr>"
| "clearMemory Environment this = this\<lparr>environmentMemory := None\<rparr>"

definition clearAllMemories :: "CompleteConsistencyAI \<Rightarrow> CompleteConsistencyAI" where
  "clearAllMemories this =
     this\<lparr>faceMemory := None, dressMemory := None,
          backgroundMemory := None, environmentMemory := None\<rparr>"

section \<open>The chat component (App.tsx)\<close>

text \<open>
  The stores of the component \<open>App\<close> that a turn reads or writes: the images uploaded for
  the next message, the face references of the chat, and the \<open>CompleteConsistencyAI\<close>
  object that the component creates once and hands to the studio. Of \<open>handleSendMessage\<close>
  the model keeps the guard at its start, the images it sends, the call of \<open>sendMessage\<close>
  and the updates of these stores; the message list that it renders and from which it
  builds the history is left out, and the history is a parameter.
\<close>

record app_state =
  uploadedImages :: "image_blob list"
  faceReferences :: "image_blob list"
  consistencyAI :: CompleteConsistencyAI

definition handleSendMessage ::
  "gateway \<Rightarrow> bool \<Rightarrow> string \<Rightarrow> content list \<Rightarrow> app_state \<Rightarrow> call list \<Rightarrow> app_state \<times> call list" where
  "handleSendMessage ai isProcessing currentInput historyForAPI s calls =
     (if isProcessing \<or> (trim currentInput = [] \<and> uploadedImages s = []) then (s, calls)
      else
        let textToSend = currentInput;
            imagesToSend = faceReferences s @ uploadedImages s;
            s1 = s\<lparr>uploadedImages := []\<rparr>
        in case sendMessage ai textToSend imagesToSend historyForAPI calls of
             (Inr botResponse, calls') \<Rightarrow>
               (if resetMemory botResponse = Some True then s1\<lparr>faceReferences := []\<rparr> else s1, calls')
           | (Inl error, calls') \<Rightarrow> (s1, calls'))"

section \<open>Vocabulary of the properties\<close>

text \<open>
  The two requests of the image pipeline and the request every other image operation
  sends to \<open>gemini-2.5-flash-image\<close>, what the backend answers to the latter, and whether
  the first attempt of the pipeline yields image bytes (a response with non-empty bytes).
\<close>

definition imagenCall :: "string \<Rightarrow> string \<Rightarrow> call" where
  "imagenCall fullPrompt aspectRatio =
     GenerateImages ''imagen-4.0-generate-001'' fullPrompt aspectRatio"

definition flashImageCall :: "part list \<Rightarrow> call" where
  "flashImageCall ps =
     GenerateContent ''gemini-2.5-flash-image'' [\<lparr>role = None, parts = ps\<rparr>] ResponseModalities_IMAGE"

definition flashImageOutcome :: "gateway \<Rightarrow> call list \<Rightarrow> part list \<Rightarrow> js_error + content_response" where
  "flashImageOutcome ai calls ps =
     content_backend ai calls ''gemini-2.5-flash-image'' [\<lparr>role = None, parts = ps\<rparr>]
       ResponseModalities_IMAGE"

definition yieldsBytes :: "js_error + images_response \<Rightarrow> bool" where
  "yieldsBytes outcome =
     (case outcome of
        Inr response \<Rightarrow> (case imageBytes response of Some b \<Rightarrow> b \<noteq> [] | None \<Rightarrow> False)
      | Inl error \<Rightarrow> False)"

text \<open>
  A turn: what \<open>sendMessage\<close> sends to select a tool, the request that carries it, and the
  tool the model selects (the first function call of the answer, if the request returns
  and the answer has one).
\<close>

definition turnContents :: "string \<Rightarrow> image_blob list \<Rightarrow> content list \<Rightarrow> content list" where
  "turnContents userText images history =
     history @ [\<lparr>role = Some ''user'', parts = TextPart userText # map InlineData images\<rparr>]"

definition selectionCall :: "string \<Rightarrow> image_blob list \<Rightarrow> content list \<Rightarrow> call" where
  "selectionCall userText images history =
     GenerateContent ''gemini-flash-lite-latest'' (turnContents userText images history) (ToolSelection tools)"

definition selectedTool ::
  "gateway \<Rightarrow> string \<Rightarrow> image_blob list \<Rightarrow> content list \<Rightarrow> call list \<Rightarrow> function_call option" where
  "selectedTool ai userText images history calls =
     (case content_backend ai calls ''gemini-flash-lite-latest''
             (turnContents userText images history) (ToolSelection tools) of
        Inl error \<Rightarrow> None
      | Inr res \<Rightarrow>
          (case functionCalls res of
             None \<Rightarrow> None
           | Some [] \<Rightarrow> None
           | Some (tool # others) \<Rightarrow> Some tool))"

text \<open>
  The most recent image part of a conversation, in the words of the specification: the
  last of the inline-data parts of all messages, taken in the order of the conversation.
\<close>

fun imagePartsOf :: "part list \<Rightarrow> image_blob list" where
  "imagePartsOf [] = []"
| "imagePartsOf (InlineData d # ps) = d # imagePartsOf ps"
| "imagePartsOf (TextPart t # ps) = imagePartsOf ps"

definition lastOption :: "'a list \<Rightarrow> 'a option" where
  "lastOption xs = (if xs = [] then None else Some (last xs))"

definition mostRecentImagePart :: "content list \<Rightarrow> image_blob option" where
  "mostRecentImagePart history = lastOption (imagePartsOf (concat (map parts history)))"

section \<open>Backends and inputs of the examples\<close>

text \<open>
  A backend that answers the tool selection, Imagen and every other model with three
  fixed outcomes; an answer that calls a tool with arguments, one that calls a tool
  without an arguments object, one that carries an image, one that carries only text; and
  two attached images.
\<close>

definition scriptedBackend ::
  "(js_error + content_response) \<Rightarrow> (js_error + images_response) \<Rightarrow> (js_error + content_response) \<Rightarrow> gateway" where
  "scriptedBackend selection imagen other =
     \<lparr>images_backend = (\<lambda>calls model prompt aspectRatio. imagen),
      content_backend = (\<lambda>calls model contents cfg.
         if model = ''gemini-flash-lite-latest'' then selection else other),
      typeErrorMessage =
        (\<lambda>p. ''Cannot read properties of undefined (reading '' @ [CHR 0x27] @ p @ [CHR 0x27] @ '')'')\<rparr>"

definition toolReply :: "string \<Rightarrow> (string \<rightharpoonup> string) \<Rightarrow> content_response" where
  "toolReply toolName toolArgs =
     \<lparr>response_text = None, candidateParts = None,
      functionCalls = Some [\<lparr>name = toolName, args = Some toolArgs\<rparr>], groundingChunks = None\<rparr>"

definition bareToolReply :: "string \<Rightarrow> content_response" where
  "bareToolReply toolName =
     \<lparr>response_text = None, candidateParts = None,
      functionCalls = Some [\<lparr>name = toolName, args = None\<rparr>], groundingChunks = None\<rparr>"

definition imageReply :: content_response where
  "imageReply =
     \<lparr>response_text = None,
      candidateParts = Some [InlineData \<lparr>data = ''QUJD'', mimeType = ''image/png''\<rparr>],
      functionCalls = None, groundingChunks = None\<rparr>"

definition plainReply :: "string \<Rightarrow> content_response" where
  "plainReply t =
     \<lparr>response_text = Some t, candidateParts = Some [TextPart t],
      functionCalls = None, groundingChunks = None\<rparr>"

definition photo :: image_blob where
  "photo = \<lparr>data = ''AAAA'', mimeType = ''image/jpeg''\<rparr>"

definition portrait :: image_blob where
  "portrait = \<lparr>data = ''BBBB'', mimeType = ''image/png''\<rparr>"

section \<open>Lemmas: the backward scan of the history\<close>

lemma imagePartsOf_append: "imagePartsOf (ps @ qs) = imagePartsOf ps @ imagePartsOf qs"
  by (induction ps rule: imagePartsOf.induct) simp_all

lemma findInParts_rev: "findInParts (rev ps) = lastOption (imagePartsOf ps)"
proof (induction ps rule: rev_induct)
  case Nil
  show ?case by (simp add: lastOption_def)
next
  case (snoc p ps)
  then show ?case
    by (cases p) (simp_all add: imagePartsOf_append lastOption_def)
qed

lemma findInHistory_rev: "findInHistory (rev history) = mostRecentImagePart history"
proof (induction history rule: rev_induct)
  case Nil
  show ?case by (simp add: mostRecentImagePart_def lastOption_def)
next
  case (snoc c history)
  then show ?case
    by (simp add: mostRecentImagePart_def imagePartsOf_append findInParts_rev lastOption_def)
qed

lemma findLastImage_resolution:
  "findLastImage history (Some images) =
     (if images \<noteq> [] then Some (last images) else mostRecentImagePart history)"
  "findLastImage history None = mostRecentImagePart history"
  by (simp_all add: findLastImage_def findInHistory_rev)

section \<open>Lemmas: the image pipeline\<close>

lemma fallback_eq:
  "executeGenerateImage_fallback ai fullPrompt calls =
     (case flashImageOutcome ai calls [TextPart fullPrompt] of
        Inl fallbackError \<Rightarrow>
          Inl (if isQuotaError fallbackError
               then new_Error ''Image generation quota exceeded. Please try again later.''
               else new_Error ''Failed to generate image. Please try again.'')
      | Inr response \<Rightarrow>
          (case firstInlineData (partsOrEmpty response) of
             Some b64Image \<Rightarrow> Inr (empty_result\<lparr>image_field := Some b64Image\<rparr>)
           | None \<Rightarrow> Inl (new_Error ''No image was generated.'')),
      calls @ [flashImageCall [TextPart fullPrompt]])"
  by (simp add: executeGenerateImage_fallback_def generateContent_def flashImageOutcome_def
      flashImageCall_def split: sum.splits option.splits)

lemma executeGenerateImage_primary:
  assumes "fullPrompt = createAdvancedResizePrompt (cleanPromptForResize prompt) aspectRatio"
    and "images_backend ai calls ''imagen-4.0-generate-001'' fullPrompt aspectRatio = outcome"
  shows "executeGenerateImage ai prompt aspectRatio calls =
     (if yieldsBytes outcome
      then (Inr (empty_result\<lparr>image_field :=
                   Some (''data:image/png;base64,'' @ the (imageBytes (projr outcome)))\<rparr>),
            calls @ [imagenCall fullPrompt aspectRatio])
      else executeGenerateImage_fallback ai fullPrompt (calls @ [imagenCall fullPrompt aspectRatio]))"
  using assms
  by (auto simp add: executeGenerateImage_def generateImages_def yieldsBytes_def imagenCall_def Let_def
      split: sum.splits option.splits)

section \<open>Lemmas: the shape of the results\<close>

lemma inline_eta:
  "(\<lambda>img. InlineData \<lparr>data = data img, mimeType = mimeType img\<rparr>) = InlineData"
  by (rule ext) simp

lemma generateFromReference_shape:
  "generateFromReference ai p imgs calls = (Inr r, calls') \<Longrightarrow>
     text_field r \<noteq> None \<and> image_field r \<noteq> None \<and> needsAspectRatio r = None"
  by (auto simp: generateFromReference_def generateContent_def empty_result_def Let_def
      split: if_splits sum.splits option.splits prod.splits)

lemma executeEditImage_shape:
  "executeEditImage ai p img calls = (Inr r, calls') \<Longrightarrow>
     text_field r \<noteq> None \<and> image_field r \<noteq> None \<and> needsAspectRatio r = None"
  by (auto simp: executeEditImage_def generateContent_def empty_result_def Let_def
      split: if_splits sum.splits option.splits prod.splits)

lemma resizeImage_shape:
  "resizeImage ai img a p calls = (Inr r, calls') \<Longrightarrow>
     text_field r \<noteq> None \<and> image_field r \<noteq> None \<and> needsAspectRatio r = None"
  by (auto simp: resizeImage_def generateContent_def empty_result_def Let_def
      split: if_splits sum.splits option.splits prod.splits)

lemma executeSearch_shape:
  "executeSearch ai q calls = (Inr r, calls') \<Longrightarrow>
     text_field r \<noteq> None \<and> image_field r = None \<and> needsAspectRatio r = None"
  by (auto simp: executeSearch_def generateContent_def empty_result_def
      split: sum.splits prod.splits)

lemma executeComplexQuery_shape:
  "executeComplexQuery ai q calls = (Inr r, calls') \<Longrightarrow>
     text_field r \<noteq> None \<and> image_field r = None \<and> needsAspectRatio r = None"
  by (auto simp: executeComplexQuery_def generateContent_def empty_result_def
      split: sum.splits prod.splits)

lemma dispatchTool_shape:
  "dispatchTool ai userText images history tool calls = (Inr r, calls') \<Longrightarrow>
     text_field r \<noteq> None \<and> (needsAspectRatio r = None \<or> image_field r = None)"
  unfolding dispatchTool_def Let_def readArg_def
  by (auto simp: empty_result_def imageTextPrompt_def
      split: if_splits sum.splits option.splits prod.splits
      dest!: generateFromReference_shape executeEditImage_shape resizeImage_shape
             executeSearch_shape executeComplexQuery_shape)

lemma sendMessage_try_shape:
  "sendMessage_try ai userText images history calls = (Inr r, calls') \<Longrightarrow>
     text_field r \<noteq> None \<and> (needsAspectRatio r = None \<or> image_field r = None)"
  unfolding sendMessage_try_def Let_def
  by (auto simp: empty_result_def
      split: sum.splits option.splits prod.splits list.splits
      dest!: dispatchTool_shape)

section \<open>Lemmas: the branch of each tool\<close>

lemma selectedTool_dispatch:
  assumes "selectedTool ai userText images history calls = Some tool"
  shows "sendMessage_try ai userText images history calls =
           dispatchTool ai userText images history tool (calls @ [selectionCall userText images history])"
  using assms
  by (auto simp: sendMessage_try_def selectedTool_def selectionCall_def turnContents_def
      generateContent_def Let_def inline_eta split: sum.splits option.splits list.splits)

lemma dispatch_resetFaceMemory:
  "name tool = ''resetFaceMemory'' \<Longrightarrow>
   dispatchTool ai userText images history tool calls1 =
     (Inr (empty_result\<lparr>text_field := Some resetText, resetMemory := Some True\<rparr>), calls1)"
  by (simp add: dispatchTool_def Let_def)


lemma dispatch_editImage:
  "name tool = ''editImage'' \<Longrightarrow>
   dispatchTool ai userText images history tool calls1 =
     (case findLastImage history (Some images) of
        None \<Rightarrow> (Inr (empty_result\<lparr>text_field := Some noImageText\<rparr>), calls1)
      | Some img \<Rightarrow>
          (case args tool of
             None \<Rightarrow> (Inl (typeError ai ''prompt''), calls1)
           | Some a \<Rightarrow>
               (case executeEditImage ai (a ''prompt'') img calls1 of
                  (Inr r, calls2) \<Rightarrow>
                    (Inr (imageTextPrompt (image_field r) (text_field r) (prompt_field r)), calls2)
                | (Inl error, calls2) \<Rightarrow> (Inl error, calls2))))"
  by (simp add: dispatchTool_def readArg_def imageDependentTools_def Let_def split: option.splits)

lemma dispatch_resizeImage:
  "name tool = ''resizeImage'' \<Longrightarrow>
   dispatchTool ai userText images history tool calls1 =
     (case findLastImage history (Some images) of
        None \<Rightarrow> (Inr (empty_result\<lparr>text_field := Some noImageText\<rparr>), calls1)
      | Some img \<Rightarrow>
          (case args tool of
             None \<Rightarrow> (Inl (typeError ai ''aspectRatio''), calls1)
           | Some a \<Rightarrow>
               (case resizeImage ai img (a ''aspectRatio'') None calls1 of
                  (Inr r, calls2) \<Rightarrow>
                    (Inr (imageTextPrompt (image_field r) (text_field r) (Some ''resized'')), calls2)
                | (Inl error, calls2) \<Rightarrow> (Inl error, calls2))))"
  by (simp add: dispatchTool_def readArg_def imageDependentTools_def Let_def split: option.splits)

lemma dispatch_generateFromReference:
  "name tool = ''generateFromReference'' \<Longrightarrow>
   dispatchTool ai userText images history tool calls1 =
     (let allImages = (if images = []
                       then (case findLastImage history None of Some img \<Rightarrow> [img] | None \<Rightarrow> [])
                       else images)
      in if allImages = [] then
           (Inr (empty_result\<lparr>text_field := Some ''Please upload your face image for consistency.''\<rparr>),
            calls1)
         else
           (case args tool of
              None \<Rightarrow> (Inl (typeError ai ''prompt''), calls1)
            | Some a \<Rightarrow>
                (case generateFromReference ai (a ''prompt'') allImages calls1 of
                   (Inr r, calls2) \<Rightarrow>
                     (Inr (imageTextPrompt (image_field r) (text_field r) (prompt_field r)), calls2)
                 | (Inl error, calls2) \<Rightarrow> (Inl error, calls2))))"
  by (simp add: dispatchTool_def readArg_def imageDependentTools_def Let_def split: option.splits)

lemmas example_defs =
  scriptedBackend_def toolReply_def bareToolReply_def imageReply_def plainReply_def photo_def
  portrait_def

section \<open>Lemmas: what each image operation sends and returns\<close>

lemma blob_eta: "\<lparr>data = data img, mimeType = mimeType img\<rparr> = (img :: image_blob)"
  by (cases img) simp

lemma generateFromReference_eq:
  "images \<noteq> [] \<Longrightarrow>
   generateFromReference ai prompt images calls =
     (case flashImageOutcome ai calls (map InlineData images @ [TextPart (referencePrompt prompt)]) of
        Inr response \<Rightarrow>
          Inr (empty_result\<lparr>image_field :=
                   Some (case firstInlineData (partsOrEmpty response) of Some uri \<Rightarrow> uri | None \<Rightarrow> []),
                 text_field := Some (orElse (response_text response)
                   (case firstInlineData (partsOrEmpty response) of
                      Some uri \<Rightarrow> ''Here is your generated image with face consistency preserved.''
                    | None \<Rightarrow> ''I was unable to generate the image from the reference.'')),
                 prompt_field := prompt\<rparr>)
      | Inl error \<Rightarrow>
          Inl (if isQuotaError error then new_Error ''Usage limit exceeded. Please try again later.''
               else new_Error ''Failed to generate image from reference.''),
      calls @ [flashImageCall (map InlineData images @ [TextPart (referencePrompt prompt)])])"
  by (simp add: generateFromReference_def generateContent_def flashImageOutcome_def flashImageCall_def
      Let_def inline_eta split: sum.splits option.splits)

lemma executeEditImage_eq:
  "executeEditImage ai prompt img calls =
     (case flashImageOutcome ai calls [InlineData img, TextPart (editPrompt prompt)] of
        Inr response \<Rightarrow>
          Inr (empty_result\<lparr>image_field :=
                   Some (case firstInlineData (partsOrEmpty response) of Some uri \<Rightarrow> uri | None \<Rightarrow> []),
                 text_field := Some (orElse (response_text response)
                   (case firstInlineData (partsOrEmpty response) of
                      Some uri \<Rightarrow> ''Here is your edited image.''
                    | None \<Rightarrow> ''I was unable to edit the image as requested. Please try a different prompt.'')),
                 prompt_field := prompt\<rparr>)
      | Inl error \<Rightarrow>
          Inl (if isQuotaError error
               then new_Error ''Usage limit exceeded for image editing. Please try again later.''
               else new_Error ''Failed to edit image.''),
      calls @ [flashImageCall [InlineData img, TextPart (editPrompt prompt)]])"
  by (simp add: executeEditImage_def generateContent_def flashImageOutcome_def flashImageCall_def
      Let_def blob_eta split: sum.splits option.splits)

lemma resizeImage_calls:
  "snd (resizeImage ai img aspectRatio originalPrompt calls) =
     calls @ [flashImageCall [InlineData img, TextPart (resizePrompt (interpolate aspectRatio))]]"
  by (simp add: resizeImage_def generateContent_def flashImageCall_def
      Let_def blob_eta split: sum.splits option.splits)

lemma sendMessage_calls:
  "snd (sendMessage ai userText images history calls) =
     snd (sendMessage_try ai userText images history calls)"
  by (cases "sendMessage_try ai userText images history calls")
    (auto simp: sendMessage_def split: sum.splits)

lemma sendMessage_returns:
  "fst (sendMessage_try ai userText images history calls) = Inr r \<Longrightarrow>
   fst (sendMessage ai userText images history calls) = Inr r"
  by (cases "sendMessage_try ai userText images history calls") (auto simp: sendMessage_def)

lemma sendMessage_catches:
  "fst (sendMessage_try ai userText images history calls) = Inl error \<Longrightarrow>
   fst (sendMessage ai userText images history calls) = sendMessage_catch ai error"
  by (cases "sendMessage_try ai userText images history calls") (auto simp: sendMessage_def)

lemma isQuotaError_Nullish: "\<not> isQuotaError Nullish"
  by (simp add: isQuotaError_def)

lemma catch_Nullish: "sendMessage_catch ai Nullish = Inl (typeError ai ''message'')"
  by (simp add: sendMessage_catch_def isQuotaError_Nullish)

lemma catch_Thrown:
  "sendMessage_catch ai (Thrown v) =
     Inr (empty_result\<lparr>text_field :=
            Some (if isQuotaError (Thrown v) then highTrafficText
                  else ''An error occurred: '' @ interpolate (message v))\<rparr>)"
  by (simp add: sendMessage_catch_def)

lemma catch_new_Error:
  "sendMessage_catch ai (new_Error msg) =
     Inr (empty_result\<lparr>text_field :=
            Some (if isQuotaError (new_Error msg) then highTrafficText
                  else ''An error occurred: '' @ msg)\<rparr>)"
  by (simp add: new_Error_def catch_Thrown interpolate_def)

lemma catch_typeError:
  "sendMessage_catch ai (typeError ai p) =
     Inr (empty_result\<lparr>text_field :=
            Some (if isQuotaError (typeError ai p) then highTrafficText
                  else ''An error occurred: '' @ typeErrorMessage ai p)\<rparr>)"
  by (simp add: typeError_def catch_new_Error)


text \<open>
  What \<open>sendMessage\<close> gives: a result with a text, unless its \<open>try\<close> block throws \<open>null\<close>
  or \<open>undefined\<close>; then the \<open>catch\<close> block throws a \<open>TypeError\<close>.
\<close>

lemma sendMessage_outcome:
  "(\<exists>r. fst (sendMessage ai userText images history calls) = Inr r
        \<and> text_field r \<noteq> None
        \<and> (needsAspectRatio r = None \<or> image_field r = None))
   \<or> (fst (sendMessage_try ai userText images history calls) = Inl Nullish
       \<and> fst (sendMessage ai userText images history calls) = Inl (typeError ai ''message''))"
proof (cases "fst (sendMessage_try ai userText images history calls)")
  case (Inr r)
  then have "text_field r \<noteq> None \<and> (needsAspectRatio r = None \<or> image_field r = None)"
    using sendMessage_try_shape [of ai userText images history calls r] by (metis prod.collapse)
  with Inr show ?thesis
    by (simp add: sendMessage_returns)
next
  case (Inl error)
  then show ?thesis
    by (cases error) (simp_all add: sendMessage_catches catch_Nullish catch_Thrown empty_result_def)
qed

section \<open>Lemmas: strings and the generation prompt\<close>

text \<open>
  Equations that evaluate the string functions step by step, and two facts about every
  prompt that \<open>createAdvancedResizePrompt\<close> builds: it names the target ratio, and for
  \<open>9:16\<close> it holds the block of the vertical composition.
\<close>

lemma startsWith_Cons_if:
  "startsWith (c # cs) (d # ds) = (if c = d then startsWith cs ds else False)"
  by simp

lemma includes_str_Cons_if:
  "includes_str (c # cs) sub = (if startsWith (c # cs) sub then True else includes_str cs sub)"
  by simp

lemma startsWithCI_Cons_if:
  "startsWithCI (c # cs) (d # ds) =
     (if toUpperChar c = toUpperChar d then startsWithCI cs ds else False)"
  by simp

lemma matchesWordAt_if:
  "matchesWordAt term prev s =
     (if term = [] then False
      else if startsWithCI s term
      then (if wordBoundary prev (charAt s 0)
            then wordBoundary (charAt s (length term - 1)) (charAt s (length term)) else False)
      else False)"
  by (auto simp: matchesWordAt_def)

lemma startsWith_append: "startsWith (sub @ rest) sub"
  by (induction sub) simp_all

lemma includes_str_Nil: "includes_str s []"
  by (cases s) simp_all

lemma includes_str_prefix: "includes_str (sub @ rest) sub"
  by (cases "sub @ rest") (use startsWith_append [of sub rest] in \<open>auto simp: includes_str_Nil\<close>)

lemma includes_str_append: "includes_str b sub \<Longrightarrow> includes_str (a @ b) sub"
  by (induction a) simp_all

lemma prompt_names_ratio: "includes_str (createAdvancedResizePrompt p r) r"
  unfolding createAdvancedResizePrompt_def Let_def
  by (intro includes_str_prefix includes_str_append)

lemma ratioInstructions_916: "ratioInstructions ''9:16'' s e = verticalPortrait916 s"
  by (simp add: ratioInstructions_def)

lemma prompt_has_vertical_block:
  "includes_str (createAdvancedResizePrompt p ''9:16'')
     (verticalPortrait916 (detect subjects (toLowerCase p) ''subject''))"
  unfolding createAdvancedResizePrompt_def Let_def ratioInstructions_916
  by (intro includes_str_prefix includes_str_append)

text \<open>
  The character classes and case conversions of the characters that occur in the example
  prompt and in the terms \<open>cleanPromptForResize\<close> removes, computed once, and the steps of
  the builder on the example prompt.
\<close>

lemma wordChars_table:
  "list_all isWordChar ''abcdefghijklmnopqrstuvwxyz0123456789''"
  "list_all (\<lambda>c. \<not> isWordChar c) '' ,:''"
  by (simp_all add: isWordChar_def)

lemma spaceChars_table:
  "list_all (\<lambda>c. \<not> isSpaceChar c) ''abcdefghijklmnopqrstuvwxyz0123456789,:''"
  "isSpaceChar CHR '' ''"
  by (simp_all add: isSpaceChar_def)

lemma toUpperChar_table:
  "map toUpperChar ''abcdefghijklmnopqrstuvwxyz0123456789 ,:''
     = ''ABCDEFGHIJKLMNOPQRSTUVWXYZ0123456789 ,:''"
  by code_simp

lemma toLowerChar_table:
  "map toLowerChar ''abcdefghijklmnopqrstuvwxyz0123456789 ,:''
     = ''abcdefghijklmnopqrstuvwxyz0123456789 ,:''"
  by code_simp

lemmas char_tables =
  wordChars_table [unfolded list.pred_inject simp_thms]
  spaceChars_table [unfolded list.pred_inject simp_thms]
  toUpperChar_table [unfolded list.map list.inject simp_thms]
  toLowerChar_table [unfolded list.map list.inject simp_thms]

lemma clean_lion:
  "cleanPromptForResize ''a lion in the desert, landscape'' = ''a lion in the desert,''"
  by (simp add: cleanPromptForResize_def orientationTerms_def matchesWordAt_if wordBoundary_def
      charAt_def trim_def char_tables startsWithCI_Cons_if del: startsWithCI.simps(3))

lemma lower_lion: "toLowerCase ''a lion in the desert,'' = ''a lion in the desert,''"
  by (simp add: toLowerCase_def char_tables)

lemma upper_lion: "toUpperCase ''lion'' = ''LION''"
  by (simp add: toUpperCase_def char_tables)

lemma detect_lion:
  "detect subjects ''a lion in the desert,'' ''subject'' = ''lion''"
  "detect environments ''a lion in the desert,'' ''environment'' = ''desert''"
  by (simp_all add: detect_def subjects_def environments_def
      includes_str_Cons_if startsWith_Cons_if del: includes_str.simps(2) startsWith.simps(3))

lemma detect_style:
  "detect styles ''a lion in the desert,'' ''realistic'' = ''realistic''"
  by (simp add: detect_def styles_def
      includes_str_Cons_if startsWith_Cons_if del: includes_str.simps(2) startsWith.simps(3))

lemma no_landscape:
  "\<not> includes_str (createAdvancedResizePrompt ''a lion in the desert,'' ''9:16'') ''landscape''"
  by (simp add: createAdvancedResizePrompt_def lower_lion detect_lion detect_style upper_lion Let_def
      sizeInstructions_def ratioInstructions_916 verticalPortrait916_def consistencyCommands_def)

section \<open>Properties\<close>

text \<open>
  Claim C1 says that \<open>sendMessage\<close> returns a result with a text for every input and never
  throws. It throws where what its \<open>try\<close> block throws is \<open>null\<close> or \<open>undefined\<close>: the
  value is not a quota error, and the \<open>catch\<close> block then reads \<open>error.message\<close> without
  the guard that \<open>isQuotaError\<close> uses. The theorem runs two such turns, one whose
  tool-selection request is rejected with \<open>undefined\<close> and one whose resize request is
  (\<open>resizeImage\<close> throws on what it caught): in both \<open>sendMessage\<close> throws the
  \<open>TypeError\<close> of that read.
\<close>

theorem sendMessage_throws_on_nullish:
  "fst (sendMessage (scriptedBackend (Inl Nullish) (Inl Nullish) (Inl Nullish)) ''hello'' [] [] [])
     = Inl (new_Error ''Cannot read properties of undefined (reading 'message')'')
   \<and> fst (sendMessage
            (scriptedBackend (Inr (toolReply ''resizeImage'' [''aspectRatio'' \<mapsto> ''16:9'']))
               (Inl Nullish) (Inl Nullish))
            ''make it wide'' [photo] [] [])
     = Inl (new_Error ''Cannot read properties of undefined (reading 'message')'')"
  by (simp add: sendMessage_def sendMessage_try_def dispatchTool_def readArg_def resizeImage_def
      resizeImage_catch_def generateContent_def scriptedBackend_def toolReply_def
      imageDependentTools_def findLastImage_def photo_def Let_def
      catch_Nullish isQuotaError_Nullish typeError_def)




text \<open>
  Claim C3, as amended. When the primary attempt of the image pipeline fails (it throws, or
  returns no bytes) and the secondary attempt fails too, the error surfaced depends on the
  secondary failure alone: it is the quota error exactly when the secondary attempt threw
  an error that \<open>isQuotaError\<close> classifies as quota-related, the generic "Failed to generate
  image" when it threw any other error, and "No image was generated." when it returned a
  response without image. What the primary attempt threw is logged and not looked at again.
\<close>

theorem image_pipeline_surfaced_error:
  assumes "fullPrompt = createAdvancedResizePrompt (cleanPromptForResize prompt) aspectRatio"
    and "outcome1 = images_backend ai calls ''imagen-4.0-generate-001'' fullPrompt aspectRatio"
    and "outcome2 = flashImageOutcome ai (calls @ [imagenCall fullPrompt aspectRatio]) [TextPart fullPrompt]"
    and "\<not> yieldsBytes outcome1"
  shows "(\<forall>error2. outcome2 = Inl error2 \<longrightarrow>
            fst (executeGenerateImage ai prompt aspectRatio calls) =
              Inl (if isQuotaError error2
                   then new_Error ''Image generation quota exceeded. Please try again later.''
                   else new_Error ''Failed to generate image. Please try again.''))
       \<and> (\<forall>response. outcome2 = Inr response \<and> firstInlineData (partsOrEmpty response) = None \<longrightarrow>
            fst (executeGenerateImage ai prompt aspectRatio calls) =
              Inl (new_Error ''No image was generated.''))"
proof -
  have "executeGenerateImage ai prompt aspectRatio calls =
      executeGenerateImage_fallback ai fullPrompt (calls @ [imagenCall fullPrompt aspectRatio])"
    using executeGenerateImage_primary [OF assms(1) assms(2) [symmetric]] assms(4) by simp
  then show ?thesis
    using assms(3) by (simp add: fallback_eq)
qed

theorem image_pipeline_surfaced_error_witness:
  "fst (executeGenerateImage
        (scriptedBackend (Inl (new_Error ''unused'')) (Inl (new_Error ''429 Too Many Requests''))
           (Inl (new_Error ''RESOURCE_EXHAUSTED'')))
        ''a cat'' ''1:1'' [])
     = Inl (new_Error ''Image generation quota exceeded. Please try again later.'')
   \<and> fst (executeGenerateImage
        (scriptedBackend (Inl (new_Error ''unused'')) (Inr \<lparr>imageBytes = None\<rparr>)
           (Inr (plainReply ''I cannot draw that.'')))
        ''a cat'' ''1:1'' [])
     = Inl (new_Error ''No image was generated.'')"
  using image_pipeline_surfaced_error [OF refl refl refl,
      of "scriptedBackend (Inl (new_Error ''unused'')) (Inl (new_Error ''429 Too Many Requests''))
           (Inl (new_Error ''RESOURCE_EXHAUSTED''))" "[]" "''a cat''" "''1:1''"]
    image_pipeline_surfaced_error [OF refl refl refl,
      of "scriptedBackend (Inl (new_Error ''unused'')) (Inr \<lparr>imageBytes = None\<rparr>)
           (Inr (plainReply ''I cannot draw that.''))" "[]" "''a cat''" "''1:1''"]
  by (simp add: example_defs yieldsBytes_def flashImageOutcome_def partsOrEmpty_def
      isQuotaError_def new_Error_def orElse_def)

text \<open>
  The sentence of the specification surfaces a quota error if either failure was
  quota-related. Here the primary attempt fails with a 429 and the secondary with a network
  error: the pipeline surfaces the generic failure.
\<close>

theorem primary_quota_not_surfaced:
  "isQuotaError (new_Error ''429 Too Many Requests'')
   \<and> \<not> isQuotaError (new_Error ''socket hang up'')
   \<and> fst (executeGenerateImage
        (scriptedBackend (Inl (new_Error ''unused'')) (Inl (new_Error ''429 Too Many Requests''))
           (Inl (new_Error ''socket hang up'')))
        ''a cat'' ''1:1'' [])
     = Inl (new_Error ''Failed to generate image. Please try again.'')
   \<and> new_Error ''Failed to generate image. Please try again.''
       \<noteq> new_Error ''Image generation quota exceeded. Please try again later.''"
  by (simp add: executeGenerateImage_def executeGenerateImage_fallback_def generateImages_def
      generateContent_def scriptedBackend_def isQuotaError_def new_Error_def orElse_def Let_def)



text \<open>
  Claim C5. For each of the four attributes and every string \<open>b\<close>: reading the attribute
  after its setter was called with \<open>b\<close> gives exactly \<open>b\<close>; reading it after
  \<open>clearMemory\<close> of that attribute gives the empty slot; and after \<open>clearAllMemories\<close>
  all four slots read empty, whatever the object held before.
\<close>

theorem consistency_memory_set_get_clear:
  "face (getMemories (setFaceReference b this)) = Some b
   \<and> dress (getMemories (setDressReference b this)) = Some b
   \<and> background (getMemories (setBackgroundReference b this)) = Some b
   \<and> environment (getMemories (setEnvironmentReference b this)) = Some b
   \<and> face (getMemories (clearMemory Face this)) = None
   \<and> dress (getMemories (clearMemory Dress this)) = None
   \<and> background (getMemories (clearMemory Background this)) = None
   \<and> environment (getMemories (clearMemory Environment this)) = None
   \<and> getMemories (clearAllMemories this)
       = \<lparr>face = None, dress = None, background = None, environment = None\<rparr>"
  by (simp add: getMemories_def setFaceReference_def setDressReference_def
      setBackgroundReference_def setEnvironmentReference_def clearAllMemories_def)

text \<open>
  Claim C6, as amended. The target image of a turn is the last image attached to it if
  any is attached, and otherwise the most recent image part of the history (the backward
  scan of \<open>findLastImage\<close> finds exactly that part). \<open>editImage\<close> and \<open>resizeImage\<close>, called
  with an arguments object, send the target image, and only it, to the backend; when
  there is no image they return the message that asks for an upload and make no call
  after the tool selection. \<open>generateFromReference\<close>, called with an arguments object, sends
  every image attached to the turn when any is attached, otherwise the most recent image
  part of the history, and when there is none it returns the message that asks for a face
  image and makes no call after the tool selection. When an image is found and the call
  carries no arguments object, reading the argument throws: no call is made after the tool
  selection and the result is the error text of the \<open>catch\<close>.
\<close>

theorem image_tool_resolution:
  assumes "selectedTool ai userText images history calls = Some tool"
    and "calls1 = calls @ [selectionCall userText images history]"
    and "target = (if images \<noteq> [] then Some (last images) else mostRecentImagePart history)"
  shows "(name tool = ''editImage'' \<longrightarrow>
            (case target of
               None \<Rightarrow>
                 sendMessage ai userText images history calls =
                   (Inr (empty_result\<lparr>text_field := Some ''I'm sorry, I couldn't find an image to work with. Please upload one first.''\<rparr>),
                    calls1)
             | Some img \<Rightarrow>
                 (case args tool of
                    Some a \<Rightarrow>
                      snd (sendMessage ai userText images history calls) =
                        calls1 @ [flashImageCall [InlineData img, TextPart (editPrompt (a ''prompt''))]]
                  | None \<Rightarrow>
                      sendMessage ai userText images history calls =
                        (Inr (empty_result\<lparr>text_field :=
                             Some (if isQuotaError (typeError ai ''prompt'')
                                   then ''I apologize, but I'm currently experiencing high traffic (Quota Exceeded). Please try again in a few moments.''
                                   else ''An error occurred: '' @ typeErrorMessage ai ''prompt'')\<rparr>),
                         calls1))))
       \<and> (name tool = ''resizeImage'' \<longrightarrow>
            (case target of
               None \<Rightarrow>
                 sendMessage ai userText images history calls =
                   (Inr (empty_result\<lparr>text_field := Some ''I'm sorry, I couldn't find an image to work with. Please upload one first.''\<rparr>),
                    calls1)
             | Some img \<Rightarrow>
                 (case args tool of
                    Some a \<Rightarrow>
                      snd (sendMessage ai userText images history calls) =
                        calls1 @ [flashImageCall [InlineData img,
                                    TextPart (resizePrompt (interpolate (a ''aspectRatio'')))]]
                  | None \<Rightarrow>
                      sendMessage ai userText images history calls =
                        (Inr (empty_result\<lparr>text_field :=
                             Some (if isQuotaError (typeError ai ''aspectRatio'')
                                   then ''I apologize, but I'm currently experiencing high traffic (Quota Exceeded). Please try again in a few moments.''
                                   else ''An error occurred: '' @ typeErrorMessage ai ''aspectRatio'')\<rparr>),
                         calls1))))
       \<and> (name tool = ''generateFromReference'' \<longrightarrow>
            (case (if images \<noteq> [] then images
                   else (case mostRecentImagePart history of Some img \<Rightarrow> [img] | None \<Rightarrow> [])) of
               [] \<Rightarrow>
                 sendMessage ai userText images history calls =
                   (Inr (empty_result\<lparr>text_field :=
                           Some ''Please upload your face image for consistency.''\<rparr>), calls1)
             | img # imgs \<Rightarrow>
                 (case args tool of
                    Some a \<Rightarrow>
                      snd (sendMessage ai userText images history calls) =
                        calls1 @ [flashImageCall (map InlineData (img # imgs)
                                    @ [TextPart (referencePrompt (a ''prompt''))])]
                  | None \<Rightarrow>
                      sendMessage ai userText images history calls =
                        (Inr (empty_result\<lparr>text_field :=
                             Some (if isQuotaError (typeError ai ''prompt'')
                                   then ''I apologize, but I'm currently experiencing high traffic (Quota Exceeded). Please try again in a few moments.''
                                   else ''An error occurred: '' @ typeErrorMessage ai ''prompt'')\<rparr>),
                         calls1))))"
proof -
  have body: "sendMessage ai userText images history calls =
      (case dispatchTool ai userText images history tool calls1 of
         (Inr r, c) \<Rightarrow> (Inr r, c)
       | (Inl error, c) \<Rightarrow> (sendMessage_catch ai error, c))"
    using assms(1,2) by (simp add: sendMessage_def selectedTool_dispatch)
  have target: "findLastImage history (Some images) = target"
    using assms(3) by (simp add: findLastImage_resolution)
  have trace: "c = calls1 @ [flashImageCall [InlineData img, TextPart (resizePrompt (interpolate ar))]]"
    if "resizeImage ai img ar None calls1 = (x, c)" for img ar x c
    using resizeImage_calls [of ai img ar None calls1] that by simp
  show ?thesis
    apply (intro conjI impI)
    subgoal premises n
      unfolding body dispatch_editImage [OF n] target
      by (simp add: executeEditImage_eq catch_typeError highTrafficText_def noImageText_def
          split: option.splits sum.splits)
    subgoal premises n
      unfolding body dispatch_resizeImage [OF n] target
      by (auto simp: catch_typeError highTrafficText_def noImageText_def
          dest: trace split: option.splits sum.splits prod.splits)
    subgoal premises n
      unfolding body dispatch_generateFromReference [OF n] findLastImage_resolution Let_def
      by (cases "mostRecentImagePart history"; cases images)
        (simp_all add: generateFromReference_eq catch_typeError highTrafficText_def
          split: option.splits sum.splits)
    done
qed

theorem image_tool_resolution_witness:
  "snd (sendMessage
          (scriptedBackend (Inr (toolReply ''editImage'' [''prompt'' \<mapsto> ''make it red'']))
             (Inl (new_Error ''unused'')) (Inr imageReply))
          ''make it red'' []
          [\<lparr>role = Some ''user'', parts = [TextPart ''my car'', InlineData photo, InlineData portrait]\<rparr>,
           \<lparr>role = Some ''model'', parts = [TextPart ''Nice car.'']\<rparr>] [])
     = [selectionCall ''make it red'' []
          [\<lparr>role = Some ''user'', parts = [TextPart ''my car'', InlineData photo, InlineData portrait]\<rparr>,
           \<lparr>role = Some ''model'', parts = [TextPart ''Nice car.'']\<rparr>],
        flashImageCall [InlineData portrait, TextPart (editPrompt (Some ''make it red''))]]
   \<and> sendMessage
          (scriptedBackend (Inr (toolReply ''resizeImage'' [''aspectRatio'' \<mapsto> ''16:9'']))
             (Inl (new_Error ''unused'')) (Inr imageReply))
          ''make this landscape'' [] [\<lparr>role = Some ''model'', parts = [TextPart ''Hello.'']\<rparr>] []
     = (Inr (empty_result\<lparr>text_field :=
               Some ''I'm sorry, I couldn't find an image to work with. Please upload one first.''\<rparr>),
        [selectionCall ''make this landscape'' [] [\<lparr>role = Some ''model'', parts = [TextPart ''Hello.'']\<rparr>]])
   \<and> snd (sendMessage
          (scriptedBackend (Inr (toolReply ''generateFromReference'' [''prompt'' \<mapsto> ''on a beach'']))
             (Inl (new_Error ''unused'')) (Inr imageReply))
          ''put me on a beach'' []
          [\<lparr>role = Some ''user'', parts = [TextPart ''me'', InlineData photo]\<rparr>] [])
     = [selectionCall ''put me on a beach'' []
          [\<lparr>role = Some ''user'', parts = [TextPart ''me'', InlineData photo]\<rparr>],
        flashImageCall [InlineData photo, TextPart (referencePrompt (Some ''on a beach''))]]
   \<and> sendMessage
          (scriptedBackend (Inr (bareToolReply ''resizeImage''))
             (Inl (new_Error ''unused'')) (Inr imageReply))
          ''make this wide'' [photo] [] []
     = (Inr (empty_result\<lparr>text_field :=
          Some ''An error occurred: Cannot read properties of undefined (reading 'aspectRatio')''\<rparr>),
        [selectionCall ''make this wide'' [photo] []])"
  using image_tool_resolution [OF _ refl refl,
      of "scriptedBackend (Inr (toolReply ''editImage'' [''prompt'' \<mapsto> ''make it red'']))
            (Inl (new_Error ''unused'')) (Inr imageReply)"
         "''make it red''" "[]"
         "[\<lparr>role = Some ''user'', parts = [TextPart ''my car'', InlineData photo, InlineData portrait]\<rparr>,
           \<lparr>role = Some ''model'', parts = [TextPart ''Nice car.'']\<rparr>]" "[]"
         "\<lparr>name = ''editImage'', args = Some [''prompt'' \<mapsto> ''make it red'']\<rparr>"]
    image_tool_resolution [OF _ refl refl,
      of "scriptedBackend (Inr (toolReply ''resizeImage'' [''aspectRatio'' \<mapsto> ''16:9'']))
            (Inl (new_Error ''unused'')) (Inr imageReply)"
         "''make this landscape''" "[]" "[\<lparr>role = Some ''model'', parts = [TextPart ''Hello.'']\<rparr>]" "[]"
         "\<lparr>name = ''resizeImage'', args = Some [''aspectRatio'' \<mapsto> ''16:9'']\<rparr>"]
    image_tool_resolution [OF _ refl refl,
      of "scriptedBackend (Inr (toolReply ''generateFromReference'' [''prompt'' \<mapsto> ''on a beach'']))
            (Inl (new_Error ''unused'')) (Inr imageReply)"
         "''put me on a beach''" "[]"
         "[\<lparr>role = Some ''user'', parts = [TextPart ''me'', InlineData photo]\<rparr>]" "[]"
         "\<lparr>name = ''generateFromReference'', args = Some [''prompt'' \<mapsto> ''on a beach'']\<rparr>"]
    image_tool_resolution [OF _ refl refl,
      of "scriptedBackend (Inr (bareToolReply ''resizeImage''))
            (Inl (new_Error ''unused'')) (Inr imageReply)"
         "''make this wide''" "[photo]" "[]" "[]"
         "\<lparr>name = ''resizeImage'', args = None\<rparr>"]
  by (simp add: selectedTool_def scriptedBackend_def toolReply_def bareToolReply_def
      mostRecentImagePart_def lastOption_def typeError_def isQuotaError_def new_Error_def orElse_def)

text \<open>
  The sentence of the specification resolves one target image, the last attached one, for
  all three tools. With two attached images \<open>generateFromReference\<close> sends both to the
  backend, the first as well as the last.
\<close>

theorem generateFromReference_sends_every_attached_image:
  "snd (sendMessage
          (scriptedBackend (Inr (toolReply ''generateFromReference'' [''prompt'' \<mapsto> ''both at a table'']))
             (Inl (new_Error ''unused'')) (Inr imageReply))
          ''combine these'' [photo, portrait] [] [])
     = [selectionCall ''combine these'' [photo, portrait] [],
        flashImageCall [InlineData photo, InlineData portrait,
                        TextPart (referencePrompt (Some ''both at a table''))]]
   \<and> last [photo, portrait] = portrait
   \<and> photo \<noteq> portrait"
  by (simp add: sendMessage_calls sendMessage_try_def dispatchTool_def imageDependentTools_def
      generateFromReference_def generateContent_def scriptedBackend_def toolReply_def imageReply_def
      selectionCall_def turnContents_def flashImageCall_def photo_def portrait_def Let_def
      partsOrEmpty_def readArg_def)

text \<open>
  Claim C7, as amended. For every turn in which the selected tool is \<open>resetFaceMemory\<close>,
  \<open>sendMessage\<close> returns \<open>resetMemory = true\<close> with the confirmation text and makes no call
  after the tool selection; \<open>handleSendMessage\<close> then empties the face references of the
  chat, whatever they held, together with the images uploaded for the turn. The four
  slots of the consistency memory are left as they were.
\<close>

theorem resetFaceMemory_dispatch:
  assumes "selectedTool ai userText images history calls = Some tool"
    and "name tool = ''resetFaceMemory''"
  shows "sendMessage ai userText images history calls =
           (Inr (empty_result\<lparr>text_field := Some resetText, resetMemory := Some True\<rparr>),
            calls @ [selectionCall userText images history])
       \<and> (\<forall>s. faceReferences s @ uploadedImages s = images
                \<and> \<not> (trim userText = [] \<and> uploadedImages s = []) \<longrightarrow>
              fst (handleSendMessage ai False userText history s calls) =
                s\<lparr>uploadedImages := [], faceReferences := []\<rparr>
              \<and> consistencyAI (fst (handleSendMessage ai False userText history s calls)) =
                  consistencyAI s)"
proof -
  have sent: "sendMessage ai userText images history calls =
      (Inr (empty_result\<lparr>text_field := Some resetText, resetMemory := Some True\<rparr>),
       calls @ [selectionCall userText images history])"
    by (simp add: sendMessage_def selectedTool_dispatch [OF assms(1)] dispatch_resetFaceMemory [OF assms(2)])
  have "fst (handleSendMessage ai False userText history s calls) =
        s\<lparr>uploadedImages := [], faceReferences := []\<rparr>
      \<and> consistencyAI (fst (handleSendMessage ai False userText history s calls)) = consistencyAI s"
    if "faceReferences s @ uploadedImages s = images"
      and "\<not> (trim userText = [] \<and> uploadedImages s = [])" for s
    using that sent by (auto simp: handleSendMessage_def Let_def empty_result_def)
  with sent show ?thesis by blast
qed

theorem resetFaceMemory_dispatch_witness:
  "sendMessage
     (scriptedBackend (Inr (toolReply ''resetFaceMemory'' Map.empty))
        (Inl (new_Error ''unused'')) (Inl (new_Error ''unused'')))
     ''reset face'' [photo, portrait] [] []
   = (Inr (empty_result\<lparr>text_field := Some resetText, resetMemory := Some True\<rparr>),
      [selectionCall ''reset face'' [photo, portrait] []])
   \<and> fst (handleSendMessage
        (scriptedBackend (Inr (toolReply ''resetFaceMemory'' Map.empty))
           (Inl (new_Error ''unused'')) (Inl (new_Error ''unused'')))
        False ''reset face'' []
        \<lparr>uploadedImages = [portrait], faceReferences = [photo],
         consistencyAI = new_CompleteConsistencyAI\<rparr> [])
     = \<lparr>uploadedImages = [], faceReferences = [], consistencyAI = new_CompleteConsistencyAI\<rparr>"
  using resetFaceMemory_dispatch [of
      "scriptedBackend (Inr (toolReply ''resetFaceMemory'' Map.empty))
        (Inl (new_Error ''unused'')) (Inl (new_Error ''unused''))"
      "''reset face''" "[photo, portrait]" "[]" "[]"
      "\<lparr>name = ''resetFaceMemory'', args = Some Map.empty\<rparr>"]
  by (simp add: selectedTool_def scriptedBackend_def toolReply_def)

text \<open>
  The sentence of the specification empties the four consistency memory slots. A turn that
  selects \<open>resetFaceMemory\<close> while the face and dress slots are set returns
  \<open>resetMemory = true\<close>, and both slots still hold their images afterwards: nothing on the
  path calls \<open>clearAllMemories\<close>.
\<close>

theorem reset_keeps_consistency_memory:
  "fst (sendMessage
        (scriptedBackend (Inr (toolReply ''resetFaceMemory'' Map.empty))
           (Inl (new_Error ''unused'')) (Inl (new_Error ''unused'')))
        ''reset face'' [photo] [] [])
     = Inr (empty_result\<lparr>text_field := Some resetText, resetMemory := Some True\<rparr>)
   \<and> getMemories (consistencyAI (fst (handleSendMessage
        (scriptedBackend (Inr (toolReply ''resetFaceMemory'' Map.empty))
           (Inl (new_Error ''unused'')) (Inl (new_Error ''unused'')))
        False ''reset face'' []
        \<lparr>uploadedImages = [], faceReferences = [photo],
         consistencyAI = setDressReference ''CCCC'' (setFaceReference ''AAAA'' new_CompleteConsistencyAI)\<rparr>
        [])))
     = \<lparr>face = Some ''AAAA'', dress = Some ''CCCC'', background = None, environment = None\<rparr>"
  by (simp add: handleSendMessage_def sendMessage_def sendMessage_try_def dispatchTool_def
      generateContent_def scriptedBackend_def toolReply_def Let_def empty_result_def
      trim_def isSpaceChar_def getMemories_def setFaceReference_def setDressReference_def
      new_CompleteConsistencyAI_def)

text \<open>
  Claim C8. For every input and whatever the backend answers, a result of \<open>sendMessage\<close>
  never both asks for an aspect ratio and carries an image: \<open>sendMessage\<close> returns a
  result in which the image field is absent if \<open>needsAspectRatio\<close> is \<open>true\<close>, and
  \<open>needsAspectRatio\<close> is not set if the image field is present; the one exception is a
  turn whose \<open>try\<close> block throws \<open>null\<close> or \<open>undefined\<close>, where \<open>sendMessage\<close> throws and
  there is no result.
\<close>

theorem pending_and_image_exclusive:
  "(\<exists>r. fst (sendMessage ai userText images history calls) = Inr r
        \<and> (needsAspectRatio r = Some True \<longrightarrow> image_field r = None)
        \<and> (image_field r \<noteq> None \<longrightarrow> needsAspectRatio r = None))
   \<or> (fst (sendMessage_try ai userText images history calls) = Inl Nullish
       \<and> fst (sendMessage ai userText images history calls) = Inl (typeError ai ''message''))"
  using sendMessage_outcome [of ai userText images history calls] by auto

theorem pending_and_image_exclusive_witness:
  "(\<exists>r. fst (sendMessage
              (scriptedBackend (Inr (toolReply ''generateImage'' [''prompt'' \<mapsto> ''a red fox'']))
                 (Inl (new_Error ''unused'')) (Inl (new_Error ''unused'')))
              ''draw a red fox'' [] [] []) = Inr r
        \<and> needsAspectRatio r = Some True \<and> image_field r = None)
   \<and> (\<exists>r. fst (sendMessage
              (scriptedBackend (Inr (toolReply ''editImage'' [''prompt'' \<mapsto> ''make it red'']))
                 (Inl (new_Error ''unused'')) (Inr imageReply))
              ''make it red'' [photo] [] []) = Inr r
        \<and> image_field r = Some ''data:image/png;base64,QUJD'' \<and> needsAspectRatio r = None)"
  using pending_and_image_exclusive [of
      "scriptedBackend (Inr (toolReply ''generateImage'' [''prompt'' \<mapsto> ''a red fox'']))
          (Inl (new_Error ''unused'')) (Inl (new_Error ''unused''))" "''draw a red fox''" "[]" "[]" "[]"]
    pending_and_image_exclusive [of
      "scriptedBackend (Inr (toolReply ''editImage'' [''prompt'' \<mapsto> ''make it red'']))
          (Inl (new_Error ''unused'')) (Inr imageReply)" "''make it red''" "[photo]" "[]" "[]"]
  by (simp add: sendMessage_def sendMessage_try_def dispatchTool_def readArg_def generateContent_def
      example_defs imageDependentTools_def findLastImage_def executeEditImage_def empty_result_def
      imageTextPrompt_def partsOrEmpty_def Let_def)

text \<open>
  Claim C9. For the raw prompt "a lion in the desert, landscape" and the ratio "9:16", the
  builder of the generation prompt (\<open>cleanPromptForResize\<close>, then
  \<open>createAdvancedResizePrompt\<close>, as \<open>executeGenerateImage\<close> calls them) strips the word
  "landscape" from the raw prompt, detects the subject "lion" and the environment "desert"
  from the keyword lists, and builds a prompt that contains "9:16" and the block of the
  vertical composition (the seven lines of the \<open>9:16\<close> case, written out in the theorem,
  with "lion" as the subject), and does not contain "landscape" anywhere.
\<close>

theorem lion_in_the_desert_prompt:
  "cleanPromptForResize ''a lion in the desert, landscape'' = ''a lion in the desert,''
   \<and> \<not> includes_str (cleanPromptForResize ''a lion in the desert, landscape'') ''landscape''
   \<and> detect subjects (toLowerCase (cleanPromptForResize ''a lion in the desert, landscape''))
         ''subject'' = ''lion''
   \<and> detect environments (toLowerCase (cleanPromptForResize ''a lion in the desert, landscape''))
         ''environment'' = ''desert''
   \<and> includes_str
         (createAdvancedResizePrompt (cleanPromptForResize ''a lion in the desert, landscape'') ''9:16'')
         ''9:16''
   \<and> includes_str
         (createAdvancedResizePrompt (cleanPromptForResize ''a lion in the desert, landscape'') ''9:16'')
         (''\<newline>'' @
          ''            VERTICAL PORTRAIT (9:16):\<newline>'' @
          ''            - Full-body or 3/4 view of lion\<newline>'' @
          ''            - Tall, portrait-oriented framing\<newline>'' @
          ''            - More vertical space above and below\<newline>'' @
          ''            - Ideal for mobile stories and reels\<newline>'' @
          ''            - DO NOT put the image inside a phone screen'')
   \<and> \<not> includes_str
         (createAdvancedResizePrompt (cleanPromptForResize ''a lion in the desert, landscape'') ''9:16'')
         ''landscape''"
proof -
  have stripped: "\<not> includes_str ''a lion in the desert,'' ''landscape''"
    by simp
  have block: "includes_str (createAdvancedResizePrompt ''a lion in the desert,'' ''9:16'')
      (''\<newline>'' @
       ''            VERTICAL PORTRAIT (9:16):\<newline>'' @
       ''            - Full-body or 3/4 view of lion\<newline>'' @
       ''            - Tall, portrait-oriented framing\<newline>'' @
       ''            - More vertical space above and below\<newline>'' @
       ''            - Ideal for mobile stories and reels\<newline>'' @
       ''            - DO NOT put the image inside a phone screen'')"
    using prompt_has_vertical_block [of "''a lion in the desert,''"]
    unfolding lower_lion detect_lion by (simp add: verticalPortrait916_def)
  show ?thesis
    unfolding clean_lion lower_lion
    using stripped detect_lion block no_landscape
      prompt_names_ratio [of "''a lion in the desert,''" "''9:16''"]
    by (intro conjI) (rule refl, assumption+)
qed

text \<open>
  Claim C10. When the backend call of \<open>executeEditImage\<close> or of \<open>generateFromReference\<close>
  returns a response without an inline image part, the function throws nothing: it returns
  a result whose image is the empty string, whose text is the text of the response if that
  is non-empty and a fixed message otherwise, and whose prompt is the prompt it was given.
\<close>

theorem no_image_part_is_success:
  "(\<forall>response.
      flashImageOutcome ai calls [InlineData img, TextPart (editPrompt prompt)] = Inr response
      \<and> firstInlineData (partsOrEmpty response) = None \<longrightarrow>
      fst (executeEditImage ai prompt img calls) =
        Inr (empty_result\<lparr>image_field := Some [],
               text_field := Some (orElse (response_text response)
                 ''I was unable to edit the image as requested. Please try a different prompt.''),
               prompt_field := prompt\<rparr>))
   \<and> (\<forall>response.
      images \<noteq> []
      \<and> flashImageOutcome ai calls (map InlineData images @ [TextPart (referencePrompt prompt)]) = Inr response
      \<and> firstInlineData (partsOrEmpty response) = None \<longrightarrow>
      fst (generateFromReference ai prompt images calls) =
        Inr (empty_result\<lparr>image_field := Some [],
               text_field := Some (orElse (response_text response)
                 ''I was unable to generate the image from the reference.''),
               prompt_field := prompt\<rparr>))"
  by (simp add: executeEditImage_eq generateFromReference_eq)

theorem no_image_part_is_success_witness:
  "fst (executeEditImage
          (scriptedBackend (Inl (new_Error ''unused'')) (Inl (new_Error ''unused'')) (Inr (plainReply ''I cannot do that.'')))
          (Some ''make it red'') photo [])
     = Inr (empty_result\<lparr>image_field := Some [], text_field := Some ''I cannot do that.'',
              prompt_field := Some ''make it red''\<rparr>)
   \<and> fst (generateFromReference
          (scriptedBackend (Inl (new_Error ''unused'')) (Inl (new_Error ''unused'')) (Inr (plainReply [])))
          (Some ''me as a knight'') [photo] [])
     = Inr (empty_result\<lparr>image_field := Some [],
              text_field := Some ''I was unable to generate the image from the reference.'',
              prompt_field := Some ''me as a knight''\<rparr>)"
  using no_image_part_is_success [of
      "scriptedBackend (Inl (new_Error ''unused'')) (Inl (new_Error ''unused'')) (Inr (plainReply ''I cannot do that.''))"
      "[]" photo "Some ''make it red''" "[photo]"]
    no_image_part_is_success [of
      "scriptedBackend (Inl (new_Error ''unused'')) (Inl (new_Error ''unused'')) (Inr (plainReply []))"
      "[]" photo "Some ''me as a knight''" "[photo]"]
  by (simp add: scriptedBackend_def plainReply_def flashImageOutcome_def partsOrEmpty_def orElse_def)

end
